theory Spec2Isabelle
  imports Complex_Main
begin

section \<open>Python values, exceptions and the world a script runs in\<close>

text \<open>
  The three scripts of CTAPred (\<^verbatim>\<open>generate_CTA.py\<close>, \<^verbatim>\<open>predict_targets.py\<close>,
  \<^verbatim>\<open>update_chembl_np.py\<close>) are dynamically typed: the result of \<^verbatim>\<open>parse_args\<close> is an
  \<^verbatim>\<open>argparse.Namespace\<close>, an object whose attributes are whatever has been stored in it.
  A namespace is therefore a finite map from attribute names to Python values, and reading
  an attribute that was never stored raises \<^verbatim>\<open>AttributeError\<close>.
\<close>

datatype pyval = PNone | PBool bool | PInt int | PFloat real | PStr string | PList "pyval list"

datatype pyerr =
    SystemExit int string
  | AttributeError string
  | TypeError string

type_synonym namespace = "string \<rightharpoonup> pyval"

text \<open>Python's truth value of an object, as tested by \<^verbatim>\<open>if x:\<close>.\<close>

fun truthy :: "pyval \<Rightarrow> bool" where
  "truthy PNone = False"
| "truthy (PBool b) = b"
| "truthy (PInt i) = (i \<noteq> 0)"
| "truthy (PFloat x) = (x \<noteq> 0)"
| "truthy (PStr s) = (s \<noteq> [])"
| "truthy (PList vs) = (vs \<noteq> [])"

text \<open>
  What a run leaves behind: the calls it made into \<^verbatim>\<open>SharedFunc\<close>, and what it printed.
  \<^verbatim>\<open>print(..., file=log)\<close> writes through the \<^verbatim>\<open>Tee\<close> to the terminal and the log file
  (\<open>Log\<close>, and \<open>LogValue\<close> for a line that formats a value); a bare \<^verbatim>\<open>print(...)\<close>
  reaches the terminal only (\<open>Print\<close>). The text of a time stamp is not modelled:
  \<open>Stamp\<close> carries the fixed part of the line.
\<close>

datatype event =
    Log string
  | LogArgv "(string \<times> pyval) list"
  | LogValue string pyval
  | Stamp string
  | Print string
  | Called string

datatype 'c node = Dir | LogFile | Data 'c

type_synonym 'c files = "string \<rightharpoonup> 'c node"

record 'c world =
  files :: "'c files"
  trace :: "event list"

text \<open>
  A statement is a function from the state to the new state and either the exception it
  raised or its value. An exception leaves the state as it was when it was raised. The state
  is the world, extended by the variables of the script where a property is about them.
\<close>

type_synonym ('w, 'a) stmt = "'w \<Rightarrow> 'w \<times> (pyerr + 'a)"

definition ret :: "'a \<Rightarrow> ('w, 'a) stmt" where
  "ret x w = (w, Inr x)"

definition throw :: "pyerr \<Rightarrow> ('w, 'a) stmt" where
  "throw e w = (w, Inl e)"

definition bnd :: "('w, 'a) stmt \<Rightarrow> ('a \<Rightarrow> ('w, 'b) stmt) \<Rightarrow> ('w, 'b) stmt" where
  "bnd m f w = (case m w of (w', Inl e) \<Rightarrow> (w', Inl e) | (w', Inr x) \<Rightarrow> f x w')"

definition and_then :: "('w, unit) stmt \<Rightarrow> ('w, 'b) stmt \<Rightarrow> ('w, 'b) stmt" where
  "and_then m k = bnd m (\<lambda>_. k)"

definition lift :: "pyerr + 'a \<Rightarrow> ('w, 'a) stmt" where
  "lift r w = (w, r)"

definition emit :: "event \<Rightarrow> (('c, 'z) world_scheme, unit) stmt" where
  "emit e w = (w\<lparr>trace := trace w @ [e]\<rparr>, Inr ())"

text \<open>A call into \<^verbatim>\<open>SharedFunc\<close> that works on the files: recorded, then run.\<close>

definition call :: "string \<Rightarrow> ('c files \<Rightarrow> 'c files) \<Rightarrow> (('c, 'z) world_scheme, unit) stmt" where
  "call name f w = (w\<lparr>files := f (files w), trace := trace w @ [Called name]\<rparr>, Inr ())"

definition getattr :: "namespace \<Rightarrow> string \<Rightarrow> pyerr + pyval" where
  "getattr ns a = (case ns a of None \<Rightarrow> Inl (AttributeError a) | Some v \<Rightarrow> Inr v)"

definition attr :: "namespace \<Rightarrow> string \<Rightarrow> ('w, pyval) stmt" where
  "attr ns a = lift (getattr ns a)"

text \<open>A value used as a path: \<^verbatim>\<open>os.path.join\<close> and \<^verbatim>\<open>os.makedirs\<close> want text.\<close>

definition as_path :: "pyval \<Rightarrow> ('w, string) stmt" where
  "as_path v = (case v of PStr s \<Rightarrow> ret s | _ \<Rightarrow> throw (TypeError ''expected str''))"

text \<open>A value used as text: \<^verbatim>\<open>db_name + "_smiles.csv"\<close> wants a string on the left.\<close>

definition as_text :: "pyval \<Rightarrow> ('w, string) stmt" where
  "as_text v = (case v of PStr s \<Rightarrow> ret s | _ \<Rightarrow> throw (TypeError ''unsupported operand type''))"

text \<open>What a \<^verbatim>\<open>for\<close> loop runs over: the items of a list, or the characters of a string.\<close>

definition py_iter :: "pyval \<Rightarrow> pyerr + pyval list" where
  "py_iter v =
     (case v of
        PList vs \<Rightarrow> Inr vs
      | PStr s \<Rightarrow> Inr (map (\<lambda>c. PStr [c]) s)
      | _ \<Rightarrow> Inl (TypeError ''object is not iterable''))"

text \<open>\<^verbatim>\<open>os.path.join(a, b)\<close> for a relative \<open>b\<close>.\<close>

definition path_join :: "string \<Rightarrow> string \<Rightarrow> string" where
  "path_join a b = (if a = [] then b else if last a = CHR ''/'' then a @ b else a @ ''/'' @ b)"

definition path_exists :: "string \<Rightarrow> (('c, 'z) world_scheme, bool) stmt" where
  "path_exists p w = (w, Inr (files w p \<noteq> None))"

text \<open>
  \<^verbatim>\<open>os.makedirs(p)\<close> guarded by an existence test, or with \<^verbatim>\<open>exist_ok=True\<close>: a path that
  is there is left as it is. Failures of the operating system (no permission, a file where
  a folder is expected) are not described.
\<close>

definition makedirs :: "string \<Rightarrow> (('c, 'z) world_scheme, unit) stmt" where
  "makedirs p w = ((if files w p = None then w\<lparr>files := (files w)(p \<mapsto> Dir)\<rparr> else w), Inr ())"

text \<open>\<^verbatim>\<open>open(p, 'a')\<close>: the file is created when it is not there.\<close>

definition open_append :: "string \<Rightarrow> (('c, 'z) world_scheme, unit) stmt" where
  "open_append p w = ((if files w p = None then w\<lparr>files := (files w)(p \<mapsto> LogFile)\<rparr> else w), Inr ())"

section \<open>The argument parser\<close>

text \<open>
  One \<^verbatim>\<open>parser.add_argument\<close> call. \<open>conv\<close> is the \<^verbatim>\<open>type=\<close> callable: it returns the
  converted value, or the message of the \<^verbatim>\<open>ArgumentTypeError\<close> or \<^verbatim>\<open>ValueError\<close> it
  raised. A value on the command line is given as the Python literal its text denotes.
\<close>

datatype action = Store | StoreTrue

record argument =
  flag :: string
  dest :: string
  act :: action
  conv :: "pyval \<Rightarrow> string + pyval"
  choices :: "pyval list option"
  dflt :: pyval

definition conv_str :: "pyval \<Rightarrow> string + pyval" where
  "conv_str v = Inr v"

definition conv_int :: "pyval \<Rightarrow> string + pyval" where
  "conv_int v = (case v of PInt n \<Rightarrow> Inr (PInt n) | _ \<Rightarrow> Inl ''invalid int value'')"

text \<open>The namespace before any argument is read: every destination holds its default.\<close>

fun defaults :: "argument list \<Rightarrow> namespace" where
  "defaults [] = Map.empty"
| "defaults (a # as) = (defaults as)(dest a \<mapsto> dflt a)"

text \<open>
  \<^verbatim>\<open>parser.parse_args()\<close>: the arguments are taken in the order given; the first one that
  is unknown, fails its conversion or is not among the choices ends the process through
  \<^verbatim>\<open>parser.error\<close>, which prints the message and exits with status 2. A command line is a
  list of the script's own flags, written in full, each with its value; the help option
  that argparse adds by itself is not part of it.
\<close>

fun parse_argv :: "argument list \<Rightarrow> (string \<times> pyval) list \<Rightarrow> namespace \<Rightarrow> pyerr + namespace" where
  "parse_argv specs [] ns = Inr ns"
| "parse_argv specs ((f, v) # rest) ns =
     (case find (\<lambda>a. flag a = f) specs of
        None \<Rightarrow> Inl (SystemExit 2 (''unrecognized arguments: '' @ f))
      | Some a \<Rightarrow>
          (case act a of
             StoreTrue \<Rightarrow> parse_argv specs rest (ns(dest a \<mapsto> PBool True))
           | Store \<Rightarrow>
               (case conv a v of
                  Inl msg \<Rightarrow> Inl (SystemExit 2 (''argument '' @ f @ '': '' @ msg))
                | Inr v' \<Rightarrow>
                    (case choices a of
                       None \<Rightarrow> parse_argv specs rest (ns(dest a \<mapsto> v'))
                     | Some cs \<Rightarrow>
                         if v' \<in> set cs then parse_argv specs rest (ns(dest a \<mapsto> v'))
                         else Inl (SystemExit 2 (''argument '' @ f @ '': invalid choice''))))))"

definition parse :: "argument list \<Rightarrow> (string \<times> pyval) list \<Rightarrow> pyerr + namespace" where
  "parse specs argv = parse_argv specs argv (defaults specs)"

section \<open>update_chembl_np.py\<close>

definition update_arguments :: "argument list" where
  "update_arguments =
    [\<lparr>flag = ''--ChEMBL_data'', dest = ''ChEMBL_dataPath'', act = Store, conv = conv_str,
       choices = None, dflt = PNone\<rparr>,
     \<lparr>flag = ''--NPs_data'', dest = ''NPs_dataPath'', act = Store, conv = conv_str,
       choices = None, dflt = PNone\<rparr>,
     \<lparr>flag = ''--ChEMBL'', dest = ''ChEMBL'', act = StoreTrue, conv = conv_str,
       choices = None, dflt = PBool False\<rparr>,
     \<lparr>flag = ''--NPs'', dest = ''NPs'', act = StoreTrue, conv = conv_str,
       choices = None, dflt = PBool False\<rparr>,
     \<lparr>flag = ''--destination'', dest = ''destinationPath'', act = Store, conv = conv_str,
       choices = None, dflt = PStr ''Data''\<rparr>]"

definition update_parse_args :: "(string \<times> pyval) list \<Rightarrow> pyerr + namespace" where
  "update_parse_args argv = parse update_arguments argv"

text \<open>
  The functions of \<^verbatim>\<open>SharedFunc\<close> the script calls. Each works on the files under the
  directory it is given; what it does there is not fixed here.
\<close>

record 'c update_env =
  initialize_CTA_files :: "string \<Rightarrow> 'c files \<Rightarrow> 'c files"
  set_ChEMBL_as_first_option_in_CTA_table :: "string \<Rightarrow> 'c files \<Rightarrow> 'c files"
  refine_NPs_data :: "pyval \<Rightarrow> pyval \<Rightarrow> pyval \<Rightarrow> 'c files \<Rightarrow> 'c files"

text \<open>The body under \<^verbatim>\<open>if __name__ == "__main__":\<close>, statement by statement.\<close>

definition update_chembl :: "'c update_env \<Rightarrow> namespace \<Rightarrow> string \<Rightarrow> ('c world, unit) stmt" where
  "update_chembl env args output_dir =
     bnd (attr args ''ChEMBL'') (\<lambda>c.
       if truthy c then
         bnd (attr args ''ChEMBL_dataPath'') (\<lambda>p.
           if truthy p then
             call ''set_ChEMBL_as_first_option_in_CTA_table''
               (set_ChEMBL_as_first_option_in_CTA_table env output_dir)
           else
             emit (Print ''Please provide the full file path of the ChEMBL SQLite file using the --ChEMBL_data option.''))
       else ret ())"

definition update_NPs :: "'c update_env \<Rightarrow> namespace \<Rightarrow> ('c world, unit) stmt" where
  "update_NPs env args =
     bnd (attr args ''NPs'') (\<lambda>n.
       if truthy n then
         bnd (attr args ''NPs_dataPath'') (\<lambda>p.
           if truthy p then
             bnd (attr args ''NPs_dataPath'') (\<lambda>a1.
             bnd (attr args ''destinationPath'') (\<lambda>a2.
             bnd (attr args ''verbose'') (\<lambda>a3.
               call ''refine_NPs_data'' (refine_NPs_data env a1 a2 a3))))
           else
             emit (Print ''Please provide the CSV file with the latest NPs data using the --NPs_data option.''))
       else ret ())"

text \<open>Lines 73 to 88: destination folder, log file, heading of the log, output folder.\<close>

definition update_setup :: "(string \<times> pyval) list \<Rightarrow> string \<Rightarrow> ('c world, unit) stmt" where
  "update_setup argv destinationPath =
     and_then (makedirs destinationPath)
    (and_then (open_append (path_join destinationPath ''update_chembl_np_log.txt''))
    (and_then (emit (Log [CHR 0x0A]))
    (and_then (emit (LogArgv argv))
    (and_then (emit (Stamp ''Start time: ''))
              (makedirs (path_join destinationPath ''refined_chembl''))))))"

text \<open>Lines 90 to 94: the metadata file decides whether the CTA files are created.\<close>

definition update_init :: "'c update_env \<Rightarrow> string \<Rightarrow> ('c world, unit) stmt" where
  "update_init env output_dir =
     bnd (path_exists (path_join output_dir ''CTA_meta.parquet'')) (\<lambda>ex.
       if \<not> ex then call ''initialize_CTA_files'' (initialize_CTA_files env output_dir)
       else ret ())"

definition update_main :: "'c update_env \<Rightarrow> (string \<times> pyval) list \<Rightarrow> ('c world, unit) stmt" where
  "update_main env argv =
     bnd (lift (update_parse_args argv)) (\<lambda>args.
     bnd (attr args ''destinationPath'') (\<lambda>d.
     bnd (as_path d) (\<lambda>destinationPath.
     and_then (update_setup argv destinationPath)
    (and_then (update_init env (path_join destinationPath ''refined_chembl''))
    (and_then (update_chembl env args (path_join destinationPath ''refined_chembl''))
    (and_then (update_NPs env args)
              (emit (Stamp ''End time: ''))))))))"

text \<open>A run of the script from the shell: nothing has been printed or called yet.\<close>

definition update_run :: "'c update_env \<Rightarrow> (string \<times> pyval) list \<Rightarrow> 'c files
    \<Rightarrow> 'c world \<times> (pyerr + unit)" where
  "update_run env argv fs = update_main env argv \<lparr>files = fs, trace = []\<rparr>"

text \<open>Where the script looks for the metadata file, for a given \<^verbatim>\<open>--destination\<close>.\<close>

definition parquet_meta_path :: "string \<Rightarrow> string" where
  "parquet_meta_path destinationPath =
     path_join (path_join destinationPath ''refined_chembl'') ''CTA_meta.parquet''"


section \<open>Reasoning about statements\<close>

text \<open>A statement keeps a property of the world when every run from a world that has it ends in one.\<close>

definition keeps :: "('w \<Rightarrow> bool) \<Rightarrow> ('w, 'a) stmt \<Rightarrow> bool" where
  "keeps I m = (\<forall>w. I w \<longrightarrow> I (fst (m w)))"

text \<open>The event has not happened.\<close>

definition without :: "event \<Rightarrow> ('c, 'z) world_scheme \<Rightarrow> bool" where
  "without e w = (e \<notin> set (trace w))"


section \<open>generate_CTA.py and the argument parser of predict_targets.py\<close>

text \<open>A number on the command line, as \<^verbatim>\<open>float(...)\<close> reads it.\<close>

fun num_of :: "pyval \<Rightarrow> real option" where
  "num_of (PInt n) = Some (of_int n)"
| "num_of (PFloat x) = Some x"
| "num_of _ = None"

text \<open>
  Modelled from the spec: \<^verbatim>\<open>int_range\<close> of \<^verbatim>\<open>SharedFunc\<close>, which is not among the sources.
  The spec gives nBits the range 8 to 2048 and has a parameter outside its range rejected
  at the boundary with a descriptive message, so \<^verbatim>\<open>int_range(lo, hi)\<close> is the \<^verbatim>\<open>type=\<close>
  callable that reads an integer and raises when it is not within \<open>lo\<close> and \<open>hi\<close>, both
  included.
\<close>

definition int_range :: "int \<Rightarrow> int \<Rightarrow> pyval \<Rightarrow> string + pyval" where
  "int_range lo hi v =
     (case v of
        PInt n \<Rightarrow> if lo \<le> n \<and> n \<le> hi then Inr (PInt n) else Inl ''value is out of the allowed range''
      | _ \<Rightarrow> Inl ''invalid int value'')"

text \<open>
  Modelled from the spec: \<^verbatim>\<open>float_range\<close> of \<^verbatim>\<open>SharedFunc\<close>, which is not among the sources.
  The spec gives Tc the range 0.1 to 1.0 and the standard value the range 0.01 to 10000, and
  has a parameter outside its range rejected as for \<^verbatim>\<open>int_range\<close>.
\<close>

definition float_range :: "real \<Rightarrow> real \<Rightarrow> pyval \<Rightarrow> string + pyval" where
  "float_range lo hi v =
     (case num_of v of
        Some x \<Rightarrow> if lo \<le> x \<and> x \<le> hi then Inr (PFloat x) else Inl ''value is out of the allowed range''
      | None \<Rightarrow> Inl ''invalid float value'')"

text \<open>\<^verbatim>\<open>nargs='*'\<close>: the values that follow the flag are converted one by one into a list.\<close>

fun conv_all :: "(pyval \<Rightarrow> string + pyval) \<Rightarrow> pyval list \<Rightarrow> string + pyval list" where
  "conv_all c [] = Inr []"
| "conv_all c (v # vs) =
     (case c v of
        Inl msg \<Rightarrow> Inl msg
      | Inr v' \<Rightarrow> (case conv_all c vs of Inl msg \<Rightarrow> Inl msg | Inr vs' \<Rightarrow> Inr (v' # vs')))"

definition conv_star :: "(pyval \<Rightarrow> string + pyval) \<Rightarrow> pyval \<Rightarrow> string + pyval" where
  "conv_star c v =
     (case conv_all c (case v of PList vs \<Rightarrow> vs | _ \<Rightarrow> [v]) of
        Inl msg \<Rightarrow> Inl msg
      | Inr vs' \<Rightarrow> Inr (PList vs'))"

definition fingerprint_choices :: "pyval list" where
  "fingerprint_choices = [PStr ''avalon'', PStr ''ecfp'', PStr ''fcfp'', PStr ''maccs'']"

definition generate_arguments :: "argument list" where
  "generate_arguments =
    [\<lparr>flag = ''--sv'', dest = ''standard_value'', act = Store, conv = float_range (1 / 100) 10000,
       choices = None, dflt = PInt 10000\<rparr>,
     \<lparr>flag = ''--Tc'', dest = ''Tc'', act = Store, conv = float_range (1 / 10) 1,
       choices = None, dflt = PFloat (8 / 10)\<rparr>,
     \<lparr>flag = ''--fingerprint'', dest = ''fingerprint'', act = Store, conv = conv_str,
       choices = Some fingerprint_choices, dflt = PStr ''maccs''\<rparr>,
     \<lparr>flag = ''--nBits'', dest = ''nBits'', act = Store, conv = int_range 8 2048,
       choices = None, dflt = PInt 2048\<rparr>,
     \<lparr>flag = ''--radius'', dest = ''radius'', act = Store, conv = conv_int,
       choices = Some [PInt 2, PInt 3], dflt = PInt 2\<rparr>,
     \<lparr>flag = ''--verbose'', dest = ''verbose'', act = StoreTrue, conv = conv_str,
       choices = None, dflt = PBool False\<rparr>,
     \<lparr>flag = ''--n_jobs'', dest = ''n_jobs'', act = Store, conv = conv_int,
       choices = None, dflt = PInt (- 1)\<rparr>,
     \<lparr>flag = ''--output'', dest = ''outputPath'', act = Store, conv = conv_str,
       choices = None, dflt = PStr ''output''\<rparr>]"

definition generate_parse_args :: "(string \<times> pyval) list \<Rightarrow> pyerr + namespace" where
  "generate_parse_args argv = parse generate_arguments argv"

definition predict_arguments :: "argument list" where
  "predict_arguments =
    [\<lparr>flag = ''--fingerprint'', dest = ''fingerprint'', act = Store, conv = conv_str,
       choices = Some fingerprint_choices, dflt = PStr ''ecfp''\<rparr>,
     \<lparr>flag = ''--nBits'', dest = ''nBits'', act = Store, conv = int_range 8 2048,
       choices = None, dflt = PInt 2048\<rparr>,
     \<lparr>flag = ''--radius'', dest = ''radius'', act = Store, conv = conv_int,
       choices = Some [PInt 2, PInt 3], dflt = PInt 2\<rparr>,
     \<lparr>flag = ''--k'', dest = ''top_k'', act = Store, conv = conv_star conv_int,
       choices = None, dflt = PInt 1\<rparr>,
     \<lparr>flag = ''--n_jobs'', dest = ''n_jobs'', act = Store, conv = conv_int,
       choices = None, dflt = PInt (- 1)\<rparr>,
     \<lparr>flag = ''--verbose'', dest = ''verbose'', act = StoreTrue, conv = conv_str,
       choices = None, dflt = PBool False\<rparr>,
     \<lparr>flag = ''--input'', dest = ''inputPath'', act = Store, conv = conv_str,
       choices = None, dflt = PStr ''input''\<rparr>,
     \<lparr>flag = ''--output'', dest = ''outputPath'', act = Store, conv = conv_str,
       choices = None, dflt = PStr ''output''\<rparr>]"

definition predict_parse_args :: "(string \<times> pyval) list \<Rightarrow> pyerr + namespace" where
  "predict_parse_args argv = parse predict_arguments argv"

text \<open>
  Lines 82 to 85 of \<^verbatim>\<open>generate_CTA.py\<close> and, word for word, lines 85 to 88 of
  \<^verbatim>\<open>predict_targets.py\<close>:
  \<^verbatim>\<open>
  if args.fingerprint in ['avalon', 'maccs']:
      args.radius = None
      if args.fingerprint == 'maccs':
          args.nBits = 116
  \<close>
  The namespace is an object the statement changes; the model returns the changed one.
\<close>

definition set_fingerprint_fields :: "namespace \<Rightarrow> pyerr + namespace" where
  "set_fingerprint_fields args =
     (case getattr args ''fingerprint'' of
        Inl e \<Rightarrow> Inl e
      | Inr fp \<Rightarrow>
          if fp \<in> set [PStr ''avalon'', PStr ''maccs''] then
            (case getattr (args(''radius'' \<mapsto> PNone)) ''fingerprint'' of
               Inl e \<Rightarrow> Inl e
             | Inr fp' \<Rightarrow>
                 if fp' = PStr ''maccs'' then Inr (args(''radius'' \<mapsto> PNone, ''nBits'' \<mapsto> PInt 116))
                 else Inr (args(''radius'' \<mapsto> PNone)))
          else Inr args)"

text \<open>\<^verbatim>\<open>createCTA\<close> of \<^verbatim>\<open>SharedFunc\<close> builds the reference dataset from the arguments.\<close>

record 'c generate_env =
  createCTA :: "namespace \<Rightarrow> string \<Rightarrow> 'c files \<Rightarrow> 'c files"

definition generate_main :: "'c generate_env \<Rightarrow> (string \<times> pyval) list \<Rightarrow> ('c world, unit) stmt" where
  "generate_main env argv =
     bnd (lift (generate_parse_args argv)) (\<lambda>args.
     bnd (attr args ''outputPath'') (\<lambda>p.
     bnd (as_path p) (\<lambda>outputPath.
     and_then (makedirs outputPath)
    (and_then (open_append (path_join outputPath ''generate_CTA_log.txt''))
    (and_then (emit (Log [CHR 0x0A]))
    (and_then (emit (LogArgv argv))
    (and_then (emit (Stamp ''Start time: ''))
    (and_then (makedirs (path_join outputPath ''CTA_datasets/''))
    (bnd (lift (set_fingerprint_fields args)) (\<lambda>args'.
     and_then (call ''createCTA'' (createCTA env args' (path_join outputPath ''CTA_datasets/'')))
              (emit (Stamp (CHR 0x0A # ''Finish time: '')))))))))))))"

text \<open>
  Lines 64 to 79 of \<^verbatim>\<open>generate_CTA.py\<close> on their own, the statements between \<^verbatim>\<open>parse_args\<close>
  and the statement on the fingerprint fields: output folder, log file, heading of the log,
  folder of the datasets.
\<close>

definition generate_setup :: "(string \<times> pyval) list \<Rightarrow> string \<Rightarrow> ('c world, unit) stmt" where
  "generate_setup argv outputPath =
     and_then (makedirs outputPath)
    (and_then (open_append (path_join outputPath ''generate_CTA_log.txt''))
    (and_then (emit (Log [CHR 0x0A]))
    (and_then (emit (LogArgv argv))
    (and_then (emit (Stamp ''Start time: ''))
              (makedirs (path_join outputPath ''CTA_datasets/''))))))"


section \<open>predict_targets.py\<close>

subsection \<open>Data frames\<close>

text \<open>
  A data frame is the list of its rows. A cell is a Python value, \<open>PNone\<close> standing for a
  missing value (\<^verbatim>\<open>None\<close> or \<^verbatim>\<open>NaN\<close>); a fingerprint is a bit vector, or missing.
  \<open>cta_row\<close> has the four columns line 93 selects from the reference dataset; the rows
  \<^verbatim>\<open>select_CTA_reference_dataset\<close> returns may have more columns, which the selection drops.
\<close>

type_synonym fingerprint = "bool list"

record cta_row =
  molregno :: pyval
  clean_smiles :: pyval
  uniprot :: pyval
  target_chembl_id :: pyval

record cta_fp_row = cta_row +
  fp :: "fingerprint option"

text \<open>The similarity pair of the spec's data model, the row \<^verbatim>\<open>Query_conductSS\<close> returns.\<close>

record similarity_pair =
  query_id :: pyval
  reference_compound_id :: pyval
  target_id :: pyval
  protein_id :: pyval
  similarity_score :: real

text \<open>\<^verbatim>\<open>DataFrame.drop_duplicates\<close>: of equal rows the first one stays.\<close>

fun drop_duplicates :: "'a list \<Rightarrow> 'a list" where
  "drop_duplicates [] = []"
| "drop_duplicates (x # xs) = x # drop_duplicates (filter (\<lambda>y. y \<noteq> x) xs)"

text \<open>\<^verbatim>\<open>DataFrame.dropna\<close>: a row with a missing value in any column goes.\<close>

definition complete_cta :: "cta_row \<Rightarrow> bool" where
  "complete_cta r \<longleftrightarrow> molregno r \<noteq> PNone \<and> clean_smiles r \<noteq> PNone \<and> uniprot r \<noteq> PNone
     \<and> target_chembl_id r \<noteq> PNone"

definition complete_cta_fp :: "cta_fp_row \<Rightarrow> bool" where
  "complete_cta_fp r \<longleftrightarrow> molregno r \<noteq> PNone \<and> clean_smiles r \<noteq> PNone \<and> uniprot r \<noteq> PNone
     \<and> target_chembl_id r \<noteq> PNone \<and> fp r \<noteq> None"

text \<open>
  \<^verbatim>\<open>pd.merge(CTA, CTA_fps, on='molregno', how='inner')\<close>: every row of the left frame
  is paired with every row of the right frame that has its key.
\<close>

definition merge_on_molregno :: "cta_row list \<Rightarrow> (pyval \<times> fingerprint option) list \<Rightarrow> cta_fp_row list" where
  "merge_on_molregno CTA CTA_fps =
     concat (map (\<lambda>l. map (\<lambda>(m, f). \<lparr>molregno = molregno l, clean_smiles = clean_smiles l,
                                      uniprot = uniprot l, target_chembl_id = target_chembl_id l, fp = f\<rparr>)
                           (filter (\<lambda>(m, f). m = molregno l) CTA_fps)) CTA)"

subsection \<open>The functions of SharedFunc and pandas the script calls\<close>

text \<open>
  \<^verbatim>\<open>assert_query_resource_files\<close> answers whether the run can go on; it is handed the
  namespace and is the one place that can store \<^verbatim>\<open>datNames\<close> in it, since the parser does
  not. \<^verbatim>\<open>select_CTA_reference_dataset\<close> returns the reference rows and the identifier of
  the dataset, the latter as the text the f-string of line 130 makes of it.
  \<^verbatim>\<open>gen_fps\<close> returns a frame with the columns \<^verbatim>\<open>molregno\<close> and \<^verbatim>\<open>fp\<close>.
  \<^verbatim>\<open>read_csv\<close> is the reader of pandas: it makes the rows (\<^verbatim>\<open>np_id\<close>, \<^verbatim>\<open>smiles\<close>) of the
  content of a file. \<^verbatim>\<open>rankTargets\<close> writes the prediction files. All of them are taken
  as functions that return: a run in which one of them raises is not described.
\<close>

record ('c, 'm) predict_env =
  assert_query_resource_files :: "namespace \<Rightarrow> 'c files \<Rightarrow> bool \<times> namespace"
  select_CTA_reference_dataset :: "namespace \<Rightarrow> 'c files \<Rightarrow> 'm cta_row_scheme list \<times> string"
  gen_fps :: "namespace \<Rightarrow> (pyval \<times> pyval) list \<Rightarrow> string \<Rightarrow> (pyval \<times> fingerprint option) list"
  read_csv :: "'c node \<Rightarrow> (pyval \<times> pyval) list"
  preprocess_Query_SMILES :: "namespace \<Rightarrow> (pyval \<times> pyval) list \<Rightarrow> (pyval \<times> pyval) list"
  Query_conductSS :: "namespace \<Rightarrow> (pyval \<times> fingerprint option) list
     \<Rightarrow> (pyval \<times> pyval \<times> pyval \<times> fingerprint option) list \<Rightarrow> similarity_pair list"
  rankTargets :: "namespace \<Rightarrow> similarity_pair list \<Rightarrow> string \<Rightarrow> 'c files \<Rightarrow> 'c files"

subsection \<open>The script\<close>

text \<open>The state of a run: the world and the variable \<^verbatim>\<open>CTA\<close> of \<^verbatim>\<open>main\<close>.\<close>

record 'c predict_state = "'c world" +
  CTA :: "cta_fp_row list"

text \<open>Lines 93 and 94: the four columns, without repeated rows and without incomplete rows.\<close>

definition reference_rows :: "'m cta_row_scheme list \<Rightarrow> cta_row list" where
  "reference_rows raw = filter complete_cta (drop_duplicates (map cta_row.truncate raw))"

text \<open>Line 95: the fingerprints of the reference compounds, without repeated rows.\<close>

definition reference_fps ::
  "('c, 'm) predict_env \<Rightarrow> namespace \<Rightarrow> 'm cta_row_scheme list \<Rightarrow> (pyval \<times> fingerprint option) list" where
  "reference_fps env args raw =
     drop_duplicates
       (gen_fps env args (map (\<lambda>r. (molregno r, clean_smiles r)) (reference_rows raw)) ''Reference'')"

text \<open>Lines 96 and 97: the reference table that goes into the similarity search.\<close>

definition reference_table :: "('c, 'm) predict_env \<Rightarrow> namespace \<Rightarrow> 'm cta_row_scheme list \<Rightarrow> cta_fp_row list" where
  "reference_table env args raw =
     filter complete_cta_fp (merge_on_molregno (reference_rows raw) (reference_fps env args raw))"

text \<open>
  Modelled from the spec: what \<^verbatim>\<open>select_CTA_reference_dataset\<close> of \<^verbatim>\<open>SharedFunc\<close>, which is not
  among the sources, returns. In the spec's data model the (compound_id, target_id) pairs of
  the reference table are unique after deduplication, and a compound record has one
  canonical structure: two rows with the same molregno and target_chembl_id agree in the
  selected columns, and two rows with the same molregno have the same clean_smiles. Rows
  may be repeated.
\<close>

definition selected_dataset_invariant :: "'m cta_row_scheme list \<Rightarrow> bool" where
  "selected_dataset_invariant raw \<longleftrightarrow>
     (\<forall>r \<in> set raw. \<forall>r' \<in> set raw.
        (molregno r = molregno r' \<and> target_chembl_id r = target_chembl_id r'
           \<longrightarrow> cta_row.truncate r = cta_row.truncate r')
      \<and> (molregno r = molregno r' \<longrightarrow> clean_smiles r = clean_smiles r'))"

text \<open>
  Modelled from the spec: \<^verbatim>\<open>gen_fps\<close> of \<^verbatim>\<open>SharedFunc\<close>, which is not among the sources. The
  fingerprint generator of section 4.1 is deterministic: under one scheme and its
  parameters the fingerprint is fixed by the structure; a structure that cannot be read is
  dropped or left without a fingerprint, and the results are joined back to the compound
  ids they came from.
\<close>

definition fingerprints_by_structure :: "('c, 'm) predict_env \<Rightarrow> namespace \<Rightarrow> bool" where
  "fingerprints_by_structure env args \<longleftrightarrow>
     (\<exists>g. \<forall>rows label. set (gen_fps env args rows label) \<subseteq> (\<lambda>(m, s). (m, g s)) ` set rows)"

text \<open>Lines 91 to 97: the table is stored in \<^verbatim>\<open>CTA\<close>, the identifier is kept.\<close>

definition load_reference :: "('c, 'm) predict_env \<Rightarrow> namespace \<Rightarrow> ('c predict_state, string) stmt" where
  "load_reference env args w =
     (case select_CTA_reference_dataset env args (files w) of
        (raw, CTA_id) \<Rightarrow> (w\<lparr>CTA := reference_table env args raw\<rparr>, Inr CTA_id))"

text \<open>
  Lines 111 to 121: from the query file to the similarity pairs. Renaming a column leaves
  the rows as they are.
\<close>

definition similarity_search ::
  "('c, 'm) predict_env \<Rightarrow> namespace \<Rightarrow> cta_fp_row list \<Rightarrow> 'c node \<Rightarrow> similarity_pair list" where
  "similarity_search env args reference node =
     (let query_list = read_csv env node;
          clean_query_structures = preprocess_Query_SMILES env args query_list;
          query_fps = drop_duplicates (gen_fps env args clean_query_structures ''Query'')
      in Query_conductSS env args query_fps
           (map (\<lambda>r. (molregno r, target_chembl_id r, uniprot r, fp r)) reference))"

text \<open>Lines 110 to 134: the body of the loop for a query file that is there.\<close>

definition process_query_list ::
  "('c, 'm) predict_env \<Rightarrow> namespace \<Rightarrow> string \<Rightarrow> string \<Rightarrow> 'c node \<Rightarrow> ('c predict_state, unit) stmt" where
  "process_query_list env args CTA_id db_name node w =
     (let ChEMBL_similarity = similarity_search env args (CTA w) node in
      if length ChEMBL_similarity > 0 then
        bnd (attr args ''outputPath'') (\<lambda>p.
        bnd (as_path p) (\<lambda>outputPath.
        and_then (makedirs (path_join outputPath ''potential_targets/''))
                 (call ''rankTargets''
                    (rankTargets env args ChEMBL_similarity
                       (path_join (path_join outputPath ''potential_targets/'')
                          (db_name @ ''_using_dataset_id_'' @ CTA_id @ ''_include_with_k_value_of'')))))) w
      else ret () w)"

text \<open>The second line printed for a query file that is not there (lines 106 and 107).\<close>

definition smiles_file_hint :: string where
  "smiles_file_hint =
     ''It must be a csv file which contains smiles strings in a column named '' @ [CHR 0x27] @ ''smiles''
       @ [CHR 0x27] @ '' and compound id in a column named '' @ [CHR 0x27] @ ''np_id'' @ [CHR 0x27]"

text \<open>
  Lines 101 to 134: the loop over the query lists. The value says whether the loop ran to
  its end (\<open>True\<close>) or was left by \<^verbatim>\<open>break\<close> (\<open>False\<close>); the script does not look at it.
\<close>

fun query_loop ::
  "('c, 'm) predict_env \<Rightarrow> namespace \<Rightarrow> string \<Rightarrow> pyval list \<Rightarrow> ('c predict_state, bool) stmt" where
  "query_loop env args CTA_id [] = ret True"
| "query_loop env args CTA_id (db_name # rest) =
     and_then (emit (LogValue ''Data set: {}'' db_name))
    (bnd (attr args ''inputPath'') (\<lambda>i.
     bnd (as_text db_name) (\<lambda>name.
     bnd (as_path i) (\<lambda>inputPath.
     (\<lambda>w. case files w (path_join inputPath (name @ ''_smiles.csv'')) of
            None \<Rightarrow>
              and_then (emit (Print (''Error, file not found '' @ path_join inputPath (name @ ''_smiles.csv''))))
             (and_then (emit (Print smiles_file_hint))
                       (ret False)) w
          | Some node \<Rightarrow>
              and_then (process_query_list env args CTA_id name node)
                       (query_loop env args CTA_id rest) w)))))"

declare query_loop.simps [simp del]

definition predict_main :: "('c, 'm) predict_env \<Rightarrow> (string \<times> pyval) list \<Rightarrow> ('c predict_state, unit) stmt" where
  "predict_main env argv =
     bnd (lift (predict_parse_args argv)) (\<lambda>args.
     bnd (attr args ''outputPath'') (\<lambda>p.
     bnd (as_path p) (\<lambda>outputPath.
     and_then (makedirs outputPath)
    (and_then (open_append (path_join outputPath ''predict_targets_log.txt''))
    (and_then (emit (Log [CHR 0x0A]))
    (and_then (emit (LogArgv argv))
    (and_then (emit (Stamp ''Start time: ''))
    (bnd (\<lambda>w. (w, Inr (assert_query_resource_files env args (files w)))) (\<lambda>(ok, args1).
       if \<not> ok then
         and_then (emit (Stamp (CHR 0x0A # ''Finish time: ''))) (throw (SystemExit 0 []))
       else
         bnd (lift (set_fingerprint_fields args1)) (\<lambda>args2.
         bnd (load_reference env args2) (\<lambda>CTA_id.
         bnd (attr args2 ''datNames'') (\<lambda>datNames.
         and_then (emit (LogValue ''Start processing the {} Query sets:'' datNames))
        (bnd (lift (py_iter datNames)) (\<lambda>dbs.
         bnd (query_loop env args2 CTA_id dbs) (\<lambda>finished.
         emit (Stamp (CHR 0x0A # ''Finish time: '')))))))))))))))))"

text \<open>A run from the shell: nothing printed or called yet, \<^verbatim>\<open>CTA\<close> not yet assigned.\<close>

definition predict_run :: "('c, 'm) predict_env \<Rightarrow> (string \<times> pyval) list \<Rightarrow> 'c files
    \<Rightarrow> 'c predict_state \<times> (pyerr + unit)" where
  "predict_run env argv fs = predict_main env argv \<lparr>files = fs, trace = [], CTA = []\<rparr>"

text \<open>
  Lines 67 to 77 of \<^verbatim>\<open>predict_targets.py\<close> on their own, the statements between
  \<^verbatim>\<open>parse_args\<close> and the check of the resource files.
\<close>

definition predict_setup :: "(string \<times> pyval) list \<Rightarrow> string \<Rightarrow> ('c predict_state, unit) stmt" where
  "predict_setup argv outputPath =
     and_then (makedirs outputPath)
    (and_then (open_append (path_join outputPath ''predict_targets_log.txt''))
    (and_then (emit (Log [CHR 0x0A]))
    (and_then (emit (LogArgv argv))
              (emit (Stamp ''Start time: '')))))"

text \<open>Lines 99 to 137 on their own: what follows the loading of the reference table.\<close>

definition predict_queries :: "('c, 'm) predict_env \<Rightarrow> namespace \<Rightarrow> string \<Rightarrow> ('c predict_state, unit) stmt" where
  "predict_queries env args CTA_id =
     bnd (attr args ''datNames'') (\<lambda>datNames.
     and_then (emit (LogValue ''Start processing the {} Query sets:'' datNames))
    (bnd (lift (py_iter datNames)) (\<lambda>dbs.
     bnd (query_loop env args CTA_id dbs) (\<lambda>finished.
     emit (Stamp (CHR 0x0A # ''Finish time: ''))))))"


section \<open>The similarity search and the target ranker, from the spec\<close>

text \<open>
  Modelled from the spec: the similarity coefficient, whose code is in \<^verbatim>\<open>SharedFunc\<close> and not
  among the sources. The glossary defines the Tanimoto/Jaccard similarity of two binary
  vectors as the number of bits set in both divided by the number of bits set in either.
  Where neither vector has a set bit the quotient is 0/0; there the two vectors have the
  same set bits, and the spec, which wants every score within 0 and 1 and the score of a
  fingerprint with itself to be 1.0 for all fingerprints, leaves 1 as the only score.
\<close>

definition on_bits :: "fingerprint \<Rightarrow> nat set" where
  "on_bits A = set (filter (\<lambda>i. A ! i) [0..<length A])"

definition tanimoto :: "fingerprint \<Rightarrow> fingerprint \<Rightarrow> real" where
  "tanimoto A B =
     (if card (on_bits A \<union> on_bits B) = 0 then 1
      else real (card (on_bits A \<inter> on_bits B)) / real (card (on_bits A \<union> on_bits B)))"

text \<open>
  Modelled from the spec: the similarity search engine (section 4.3), whose code is in
  \<^verbatim>\<open>SharedFunc\<close>. Every query fingerprint is compared with every reference fingerprint, and
  a pair is kept when its score is at least the cutoff.
\<close>

definition similarity_pairs :: "real \<Rightarrow> (pyval \<times> fingerprint option) list
    \<Rightarrow> (pyval \<times> pyval \<times> pyval \<times> fingerprint option) list \<Rightarrow> similarity_pair list" where
  "similarity_pairs cutoff queries reference =
     concat (map (\<lambda>(q, qf).
       concat (map (\<lambda>(m, t, u, rf).
         (case (qf, rf) of
            (Some a, Some b) \<Rightarrow>
              if cutoff \<le> tanimoto a b then
                [\<lparr>query_id = q, reference_compound_id = m, target_id = t, protein_id = u,
                  similarity_score = tanimoto a b\<rparr>]
              else []
          | _ \<Rightarrow> [])) reference)) queries)"

text \<open>
  Modelled from the spec: the target ranker (section 4.4), whose code is \<^verbatim>\<open>rankTargets\<close> of
  \<^verbatim>\<open>SharedFunc\<close>. For one query and one k: the k pairs with the highest score are taken,
  equal scores in the order of the table; they are grouped by target, each group gets the
  mean of its scores, and the targets are ranked by falling mean.
\<close>

definition top_k_neighbors :: "nat \<Rightarrow> similarity_pair list \<Rightarrow> similarity_pair list" where
  "top_k_neighbors k pairs = take k (sort_key (\<lambda>p. - similarity_score p) pairs)"

definition mean_similarity :: "pyval \<Rightarrow> similarity_pair list \<Rightarrow> real" where
  "mean_similarity t pairs =
     sum_list (map similarity_score (filter (\<lambda>p. target_id p = t) pairs))
       / real (length (filter (\<lambda>p. target_id p = t) pairs))"

text \<open>A row of the prediction: target, protein, mean similarity over the top k, rank.\<close>

record target_prediction =
  predicted_target :: pyval
  predicted_protein :: pyval
  mean_similarity_of_top_k :: real
  rank_of_target :: nat

definition protein_of :: "pyval \<Rightarrow> similarity_pair list \<Rightarrow> pyval" where
  "protein_of t pairs = (case find (\<lambda>p. target_id p = t) pairs of Some p \<Rightarrow> protein_id p | None \<Rightarrow> PNone)"

definition rank_targets :: "nat \<Rightarrow> similarity_pair list \<Rightarrow> target_prediction list" where
  "rank_targets k pairs =
     (let neighbors = top_k_neighbors k pairs;
          means = map (\<lambda>t. (t, mean_similarity t neighbors)) (drop_duplicates (map target_id neighbors));
          ranked = sort_key (\<lambda>(t, m). - m) means
      in map (\<lambda>(i, (t, m)). \<lparr>predicted_target = t, predicted_protein = protein_of t neighbors,
                               mean_similarity_of_top_k = m, rank_of_target = Suc i\<rparr>)
             (enumerate 0 ranked))"

text \<open>The ranking of a whole similarity table: query by query, in the order of the table.\<close>

definition rank_table :: "nat \<Rightarrow> similarity_pair list \<Rightarrow> (pyval \<times> target_prediction list) list" where
  "rank_table k table =
     map (\<lambda>q. (q, rank_targets k (filter (\<lambda>p. query_id p = q) table)))
         (drop_duplicates (map query_id table))"


section \<open>A small instance on which the scripts can be run\<close>

text \<open>
  The properties below hold for any functions in the place of \<^verbatim>\<open>SharedFunc\<close>. To run a
  script on concrete input, this instance puts the similarity search and the ranker of the
  previous section into that place. A file holds query rows or the predictions for one k.
\<close>

datatype content =
    Query_rows "(pyval \<times> pyval) list"
  | Predictions "(pyval \<times> target_prediction list) list"

definition demo_update_env :: "unit update_env" where
  "demo_update_env =
     \<lparr>initialize_CTA_files = (\<lambda>dir fs. fs(path_join dir ''CTA_meta.parquet'' \<mapsto> Data ())),
      set_ChEMBL_as_first_option_in_CTA_table = (\<lambda>dir fs. fs),
      refine_NPs_data = (\<lambda>a b c fs. fs)\<rparr>"

definition demo_generate_env :: "content generate_env" where
  "demo_generate_env = \<lparr>createCTA = (\<lambda>args dir fs. fs)\<rparr>"

text \<open>The values of \<^verbatim>\<open>args.top_k\<close>: one number by default, a list after \<^verbatim>\<open>--k\<close>.\<close>

definition top_k_values :: "namespace \<Rightarrow> nat list" where
  "top_k_values args =
     (case args ''top_k'' of
        Some (PInt k) \<Rightarrow> [nat k]
      | Some (PList vs) \<Rightarrow> concat (map (\<lambda>v. case v of PInt k \<Rightarrow> [nat k] | _ \<Rightarrow> []) vs)
      | _ \<Rightarrow> [])"

text \<open>The decimal digits of a number, for the name of the file of one k.\<close>

fun decimal :: "nat \<Rightarrow> string" where
  "decimal n = (if n < 10 then [''0123456789'' ! n] else decimal (n div 10) @ [''0123456789'' ! (n mod 10)])"

declare decimal.simps [simp del]

definition demo_rankTargets :: "namespace \<Rightarrow> similarity_pair list \<Rightarrow> string \<Rightarrow> content files \<Rightarrow> content files" where
  "demo_rankTargets args table path fs =
     fold (\<lambda>k fs'. fs'(path @ ''_'' @ decimal k @ ''.csv'' \<mapsto> Data (Predictions (rank_table k table))))
          (top_k_values args) fs"

text \<open>A fingerprint that reads a structure as a string of the letters \<open>a\<close> to \<open>d\<close>.\<close>

definition demo_fp :: "pyval \<Rightarrow> fingerprint option" where
  "demo_fp v = (case v of PStr s \<Rightarrow> Some (map (\<lambda>c. c \<in> set s) ''abcd'') | _ \<Rightarrow> None)"

definition demo_reference :: "cta_row list" where
  "demo_reference =
     [\<lparr>molregno = PInt 1, clean_smiles = PStr ''ab'', uniprot = PStr ''P1'', target_chembl_id = PStr ''T1''\<rparr>,
      \<lparr>molregno = PInt 2, clean_smiles = PStr ''cd'', uniprot = PStr ''P2'', target_chembl_id = PStr ''T2''\<rparr>]"

definition demo_predict_env :: "(content, unit) predict_env" where
  "demo_predict_env =
     \<lparr>assert_query_resource_files =
        (\<lambda>args fs. (True, args(''datNames'' \<mapsto> PList [PStr ''QueryList1'', PStr ''QueryList2'', PStr ''QueryList3'']))),
      select_CTA_reference_dataset = (\<lambda>args fs. (demo_reference, ''7'')),
      gen_fps = (\<lambda>args rows label. map (\<lambda>(m, s). (m, demo_fp s)) rows),
      read_csv = (\<lambda>node. case node of Data (Query_rows rows) \<Rightarrow> rows | _ \<Rightarrow> []),
      preprocess_Query_SMILES = (\<lambda>args rows. rows),
      Query_conductSS = (\<lambda>args queries reference. similarity_pairs (1 / 2) queries reference),
      rankTargets = demo_rankTargets\<rparr>"

text \<open>
  An input folder with the files of the first and the third query list, and one with all
  three. The compound of the second list shares no bit with a reference compound.
\<close>

definition demo_files_without_second :: "content files" where
  "demo_files_without_second =
     [''input/QueryList1_smiles.csv'' \<mapsto> Data (Query_rows [(PStr ''q1'', PStr ''ab'')]),
      ''input/QueryList3_smiles.csv'' \<mapsto> Data (Query_rows [(PStr ''q3'', PStr ''cd'')])]"

definition demo_files :: "content files" where
  "demo_files =
     demo_files_without_second(''input/QueryList2_smiles.csv'' \<mapsto> Data (Query_rows [(PStr ''q2'', PStr ''x'')]))"

text \<open>
  The namespace of a run without arguments, and the state in which the loop over the query
  lists starts for a given input folder.
\<close>

definition demo_args :: namespace where
  "demo_args = defaults predict_arguments"

definition demo_state :: "content files \<Rightarrow> content predict_state" where
  "demo_state fs = \<lparr>files = fs, trace = [], CTA = reference_table demo_predict_env demo_args demo_reference\<rparr>"

text \<open>
  A selected dataset in which the first compound has two targets and its first row is there
  twice.
\<close>

definition demo_dataset :: "cta_row list" where
  "demo_dataset =
     [\<lparr>molregno = PInt 1, clean_smiles = PStr ''ab'', uniprot = PStr ''P1'', target_chembl_id = PStr ''T1''\<rparr>,
      \<lparr>molregno = PInt 1, clean_smiles = PStr ''ab'', uniprot = PStr ''P3'', target_chembl_id = PStr ''T3''\<rparr>,
      \<lparr>molregno = PInt 2, clean_smiles = PStr ''cd'', uniprot = PStr ''P2'', target_chembl_id = PStr ''T2''\<rparr>,
      \<lparr>molregno = PInt 1, clean_smiles = PStr ''ab'', uniprot = PStr ''P1'', target_chembl_id = PStr ''T1''\<rparr>]"


section \<open>Properties of the argument parser\<close>

lemma parse_argv_step:
  assumes "parse_argv specs ((f, v) # rest) ns = Inr ns'"
  shows "\<exists>a u. a \<in> set specs \<and> parse_argv specs rest (ns(dest a \<mapsto> u)) = Inr ns'"
proof (cases "find (\<lambda>a. flag a = f) specs")
  case None
  with assms show ?thesis by simp
next
  case (Some a)
  then have "a \<in> set specs"
    by (auto simp: find_Some_iff)
  moreover from assms Some have "\<exists>u. parse_argv specs rest (ns(dest a \<mapsto> u)) = Inr ns'"
    by (cases "act a"; cases "conv a v"; cases "choices a") (auto split: if_splits)
  ultimately show ?thesis by blast
qed

lemma parse_argv_dom:
  "parse_argv specs argv ns = Inr ns' \<Longrightarrow> dom ns' \<subseteq> dom ns \<union> dest ` set specs"
proof (induction argv arbitrary: ns)
  case Nil
  then show ?case by auto
next
  case (Cons fv rest)
  obtain f v where fv: "fv = (f, v)" by (cases fv)
  from Cons.prems fv have "parse_argv specs ((f, v) # rest) ns = Inr ns'" by simp
  from parse_argv_step[OF this] obtain a :: argument and u
    where mem: "a \<in> set specs" and "parse_argv specs rest (ns(dest a \<mapsto> u)) = Inr ns'" by auto
  from Cons.IH[OF this(2)] have "dom ns' \<subseteq> dom (ns(dest a \<mapsto> u)) \<union> dest ` set specs" .
  then have "dom ns' \<subseteq> insert (dest a) (dom ns) \<union> dest ` set specs"
    by simp
  with mem show ?case by blast
qed

lemma parse_argv_dom_mono:
  "parse_argv specs argv ns = Inr ns' \<Longrightarrow> dom ns \<subseteq> dom ns'"
proof (induction argv arbitrary: ns)
  case Nil
  then show ?case by auto
next
  case (Cons fv rest)
  obtain f v where fv: "fv = (f, v)" by (cases fv)
  from Cons.prems fv have "parse_argv specs ((f, v) # rest) ns = Inr ns'" by simp
  from parse_argv_step[OF this] obtain a :: argument and u
    where "parse_argv specs rest (ns(dest a \<mapsto> u)) = Inr ns'" by auto
  from Cons.IH[OF this] have "dom (ns(dest a \<mapsto> u)) \<subseteq> dom ns'" .
  then show ?case by auto
qed

lemma dom_defaults: "dom (defaults specs) = dest ` set specs"
proof (induction specs)
  case Nil
  show ?case by simp
next
  case (Cons a specs)
  have "dom (defaults (a # specs)) = insert (dest a) (dom (defaults specs))"
    by simp
  also have "\<dots> = dest ` set (a # specs)"
    using Cons.IH by simp
  finally show ?case .
qed

text \<open>After parsing, the namespace has exactly the attributes the parser declares.\<close>

lemma parse_dom: "parse specs argv = Inr ns \<Longrightarrow> dom ns = dest ` set specs"
  using parse_argv_dom[of specs argv "defaults specs" ns]
    parse_argv_dom_mono[of specs argv "defaults specs" ns]
  by (simp add: parse_def dom_defaults)


section \<open>Properties of statements\<close>

lemma bnd_Inr: "snd (m w) = Inr x \<Longrightarrow> bnd m f w = f x (fst (m w))"
  by (cases "m w") (simp add: bnd_def)

lemma bnd_Inl: "snd (m w) = Inl e \<Longrightarrow> bnd m f w = (fst (m w), Inl e)"
  by (cases "m w") (simp add: bnd_def)

lemma and_then_Inr: "snd (m w) = Inr x \<Longrightarrow> and_then m k w = k (fst (m w))"
  by (simp add: and_then_def bnd_Inr)

lemma keepsD: "keeps I m \<Longrightarrow> I w \<Longrightarrow> I (fst (m w))"
  by (simp add: keeps_def)

lemma keeps_ret: "keeps I (ret x)" by (simp add: keeps_def ret_def)

lemma keeps_throw: "keeps I (throw e)" by (simp add: keeps_def throw_def)

lemma keeps_lift: "keeps I (lift r)" by (simp add: keeps_def lift_def)

lemma keeps_attr: "keeps I (attr ns a)" by (simp add: attr_def keeps_lift)

lemma keeps_bnd: "keeps I m \<Longrightarrow> (\<And>x. keeps I (f x)) \<Longrightarrow> keeps I (bnd m f)"
  by (auto simp: keeps_def bnd_def split: prod.splits sum.splits)

lemma keeps_and_then: "keeps I m \<Longrightarrow> keeps I k \<Longrightarrow> keeps I (and_then m k)"
  by (simp add: and_then_def keeps_bnd)

lemma keeps_if: "keeps I m \<Longrightarrow> keeps I k \<Longrightarrow> keeps I (if b then m else k)"
  by simp

lemma without_emit: "e \<noteq> e' \<Longrightarrow> keeps (without e) (emit e')"
  by (simp add: keeps_def emit_def without_def)

lemma without_call: "e \<noteq> Called name \<Longrightarrow> keeps (without e) (call name f)"
  by (simp add: keeps_def call_def without_def)

lemma mono_emit: "keeps (\<lambda>w. e \<in> set (trace w)) (emit e')"
  by (simp add: keeps_def emit_def)

lemma mono_call: "keeps (\<lambda>w. e \<in> set (trace w)) (call name f)"
  by (simp add: keeps_def call_def)

lemma length_path_join:
  "length a + length b \<le> length (path_join a b)" "length (path_join a b) \<le> length a + length b + 1"
  by (simp_all add: path_join_def)

lemma bnd_lift_Inr: "bnd (lift (Inr x)) f = f x"
  by (rule ext) (simp add: bnd_def lift_def)

lemma bnd_const: "bnd m (\<lambda>_. k) = and_then m k"
  by (simp add: and_then_def)

lemma bnd_ret: "bnd (ret x) f = f x"
  by (rule ext) (simp add: bnd_def ret_def)

lemma bnd_assoc: "bnd (bnd m f) g = bnd m (\<lambda>x. bnd (f x) g)"
  by (rule ext) (simp add: bnd_def split: prod.splits sum.splits)

lemma and_then_assoc: "bnd (and_then m k) g = and_then m (bnd k g)"
  by (simp add: and_then_def bnd_assoc)

lemma bnd_attr: "args a = Some v \<Longrightarrow> bnd (attr args a) f = f v"
  by (rule ext) (simp add: bnd_def attr_def lift_def getattr_def)

lemma bnd_as_path: "bnd (as_path (PStr s)) f = f s"
  by (simp add: as_path_def bnd_ret)

lemma bnd_as_text: "bnd (as_text (PStr s)) f = f s"
  by (simp add: as_text_def bnd_ret)

lemma and_then_nested: "and_then (and_then m k) g = and_then m (and_then k g)"
  by (simp add: and_then_def bnd_assoc)


section \<open>update_chembl_np.py: the metadata gate and the NPs branch\<close>

lemma update_no_verbose: "update_parse_args argv = Inr args \<Longrightarrow> args ''verbose'' = None"
proof -
  assume "update_parse_args argv = Inr args"
  then have "dom args = dest ` set update_arguments"
    unfolding update_parse_args_def by (rule parse_dom)
  then have "''verbose'' \<notin> dom args"
    by (simp add: update_arguments_def)
  then show ?thesis by auto
qed

lemma update_parse_attrs:
  assumes "update_parse_args argv = Inr args"
  shows "dom args = {''ChEMBL_dataPath'', ''NPs_dataPath'', ''ChEMBL'', ''NPs'', ''destinationPath''}"
proof -
  have "dom args = dest ` set update_arguments"
    using assms unfolding update_parse_args_def by (rule parse_dom)
  then show ?thesis by (simp add: update_arguments_def)
qed

lemma meta_neq:
  "parquet_meta_path d \<noteq> d"
  "parquet_meta_path d \<noteq> path_join d ''update_chembl_np_log.txt''"
  "parquet_meta_path d \<noteq> path_join d ''refined_chembl''"
proof -
  have 1: "length d + 30 \<le> length (parquet_meta_path d)"
    using length_path_join(1)[of "path_join d ''refined_chembl''" "''CTA_meta.parquet''"]
      length_path_join(1)[of d "''refined_chembl''"]
    by (simp add: parquet_meta_path_def)
  show "parquet_meta_path d \<noteq> d" using 1 by auto
  show "parquet_meta_path d \<noteq> path_join d ''update_chembl_np_log.txt''"
    using 1 length_path_join(2)[of d "''update_chembl_np_log.txt''"] by auto
  have 2: "length (path_join d ''refined_chembl'') + 16 \<le> length (parquet_meta_path d)"
    using length_path_join(1)[of "path_join d ''refined_chembl''" "''CTA_meta.parquet''"]
    by (simp add: parquet_meta_path_def)
  show "parquet_meta_path d \<noteq> path_join d ''refined_chembl''" using 2 by auto
qed

lemma update_setup_meta:
  "files (fst (update_setup argv d w)) (parquet_meta_path d) = files w (parquet_meta_path d)"
  "trace (fst (update_setup argv d w)) = trace w @ [Log [CHR 0x0A], LogArgv argv, Stamp ''Start time: '']"
  "snd (update_setup argv d w) = Inr ()"
  using meta_neq[of d]
  by (simp_all add: update_setup_def and_then_def bnd_def makedirs_def open_append_def emit_def)

lemma update_init_called:
  "Called ''initialize_CTA_files'' \<in> set (trace (fst (update_init env dir w)))
     \<longleftrightarrow> Called ''initialize_CTA_files'' \<in> set (trace w) \<or> files w (path_join dir ''CTA_meta.parquet'') = None"
  by (auto simp: update_init_def bnd_def path_exists_def call_def ret_def)

lemma update_init_result: "snd (update_init env dir w) = Inr ()"
  by (simp add: update_init_def bnd_def path_exists_def call_def ret_def)

lemma update_chembl_without:
  "keeps (without (Called ''initialize_CTA_files'')) (update_chembl env args dir)"
  unfolding update_chembl_def
  by (intro keeps_bnd keeps_attr keeps_if keeps_ret without_emit without_call) simp_all

lemma update_NPs_without:
  "keeps (without (Called ''initialize_CTA_files'')) (update_NPs env args)"
  unfolding update_NPs_def
  by (intro keeps_bnd keeps_attr keeps_if keeps_ret without_emit without_call) simp_all

lemma update_tail_without:
  "keeps (without (Called ''initialize_CTA_files''))
     (and_then (update_chembl env args dir) (and_then (update_NPs env args) (emit (Stamp ''End time: ''))))"
  by (intro keeps_and_then update_chembl_without update_NPs_without without_emit) simp

lemma update_tail_mono:
  "keeps (\<lambda>w. e \<in> set (trace w))
     (and_then (update_chembl env args dir) (and_then (update_NPs env args) (emit (Stamp ''End time: ''))))"
  unfolding update_chembl_def update_NPs_def
  by (intro keeps_and_then keeps_bnd keeps_attr keeps_if keeps_ret mono_emit mono_call)

lemma update_run_unfold:
  assumes parse: "update_parse_args argv = Inr args"
    and dest: "args ''destinationPath'' = Some (PStr d)"
  shows "update_run env argv fs =
           and_then (update_chembl env args (path_join d ''refined_chembl''))
             (and_then (update_NPs env args) (emit (Stamp ''End time: '')))
             (fst (update_init env (path_join d ''refined_chembl'')
                (fst (update_setup argv d \<lparr>files = fs, trace = []\<rparr>))))"
  using parse dest
  by (simp add: update_run_def update_main_def bnd_Inr and_then_Inr lift_def attr_def getattr_def
      as_path_def ret_def update_setup_meta(3) update_init_result)

lemma update_chembl_result:
  assumes "update_parse_args argv = Inr args"
  shows "snd (update_chembl env args dir w) = Inr ()"
proof -
  from update_parse_attrs[OF assms] obtain c p
    where "args ''ChEMBL'' = Some c" "args ''ChEMBL_dataPath'' = Some p"
    by (metis domD insertCI)
  then show ?thesis
    by (simp add: update_chembl_def bnd_def attr_def lift_def getattr_def call_def emit_def ret_def)
qed

lemma update_NPs_without_refine:
  assumes "args ''verbose'' = None"
  shows "keeps (without (Called ''refine_NPs_data'')) (update_NPs env args)"
  using assms
  by (auto simp: keeps_def without_def update_NPs_def bnd_def attr_def lift_def getattr_def
      emit_def ret_def split: option.splits)

lemma update_NPs_raises:
  assumes "args ''verbose'' = None" "args ''NPs'' = Some n" "truthy n"
    "args ''NPs_dataPath'' = Some p" "truthy p" "args ''destinationPath'' = Some d"
  shows "update_NPs env args w = (w, Inl (AttributeError ''verbose''))"
  using assms
  by (simp add: update_NPs_def bnd_def attr_def lift_def getattr_def)

lemma update_chembl_without_refine:
  "keeps (without (Called ''refine_NPs_data'')) (update_chembl env args dir)"
  unfolding update_chembl_def
  by (intro keeps_bnd keeps_attr keeps_if keeps_ret without_emit without_call) simp_all

lemma update_init_without_refine:
  "keeps (without (Called ''refine_NPs_data'')) (update_init env dir)"
  unfolding update_init_def
  by (intro keeps_bnd keeps_if keeps_ret without_call) (simp_all add: keeps_def path_exists_def)

lemma update_never_refines:
  "Called ''refine_NPs_data'' \<notin> set (trace (fst (update_run env argv fs)))"
proof (cases "update_parse_args argv")
  case (Inl e)
  then show ?thesis
    by (simp add: update_run_def update_main_def bnd_def lift_def)
next
  case (Inr args)
  have nov: "args ''verbose'' = None"
    using Inr by (rule update_no_verbose)
  from update_parse_attrs[OF Inr] obtain dv where dv: "args ''destinationPath'' = Some dv"
    by (metis domD insertCI)
  show ?thesis
  proof (cases "\<exists>d. dv = PStr d")
    case True
    then obtain d where d: "args ''destinationPath'' = Some (PStr d)"
      using dv by blast
    let ?dir = "path_join d ''refined_chembl''"
    let ?w1 = "fst (update_setup argv d \<lparr>files = fs, trace = []\<rparr>)"
    let ?w2 = "fst (update_init env ?dir ?w1)"
    let ?tail = "and_then (update_chembl env args ?dir)
                   (and_then (update_NPs env args) (emit (Stamp ''End time: '')))"
    note nps = update_NPs_without_refine[of args env, OF nov]
    have k: "keeps (without (Called ''refine_NPs_data'')) ?tail"
      by (intro keeps_and_then update_chembl_without_refine nps without_emit) simp
    have w2: "without (Called ''refine_NPs_data'') ?w2"
      by (rule keepsD[OF update_init_without_refine]) (simp add: without_def update_setup_meta(2))
    have w3: "without (Called ''refine_NPs_data'') (fst (?tail ?w2))"
      using k w2 by (rule keepsD)
    have "fst (update_run env argv fs) = fst (?tail ?w2)"
      by (simp add: update_run_unfold[OF Inr d])
    with w3 show ?thesis
      by (simp add: without_def)
  next
    case False
    then have "update_run env argv fs = (\<lparr>files = fs, trace = []\<rparr>, Inl (TypeError ''expected str''))"
      using Inr dv
      by (cases dv) (simp_all add: update_run_def update_main_def bnd_def lift_def attr_def
          getattr_def as_path_def throw_def)
    then show ?thesis by simp
  qed
qed

text \<open>
  Claim C7. When the update script runs, \<^verbatim>\<open>initialize_CTA_files\<close> is called exactly when
  \<^verbatim>\<open>CTA_meta.parquet\<close> is absent from the \<^verbatim>\<open>refined_chembl\<close> folder of the destination at the
  start of the run: with the metadata file already there the CTA files are not initialised
  again, and initialisation happens only when it is missing.
\<close>

theorem update_initialize_iff_meta_absent:
  assumes parse: "update_parse_args argv = Inr args"
    and dest: "args ''destinationPath'' = Some (PStr d)"
  shows "Called ''initialize_CTA_files'' \<in> set (trace (fst (update_run env argv fs)))
           \<longleftrightarrow> fs (parquet_meta_path d) = None"
proof -
  let ?w0 = "\<lparr>files = fs, trace = []\<rparr> :: 'a world"
  let ?w1 = "fst (update_setup argv d ?w0)"
  let ?w2 = "fst (update_init env (path_join d ''refined_chembl'') ?w1)"
  let ?tail = "and_then (update_chembl env args (path_join d ''refined_chembl''))
                 (and_then (update_NPs env args) (emit (Stamp ''End time: '')))"
  let ?e = "Called ''initialize_CTA_files''"
  have run: "fst (update_run env argv fs) = fst (?tail ?w2)"
    using parse dest
    by (simp add: update_run_def update_main_def bnd_Inr and_then_Inr lift_def attr_def getattr_def
        as_path_def ret_def update_setup_meta(3) update_init_result)
  have w2: "?e \<in> set (trace ?w2) \<longleftrightarrow> fs (parquet_meta_path d) = None"
    using update_setup_meta(1,2)[of argv d ?w0]
    by (simp add: update_init_called parquet_meta_path_def)
  show ?thesis
  proof
    assume "?e \<in> set (trace (fst (update_run env argv fs)))"
    then have "\<not> without ?e (fst (?tail ?w2))" by (simp add: run without_def)
    then have "\<not> without ?e ?w2" using keepsD[OF update_tail_without] by blast
    then show "fs (parquet_meta_path d) = None" using w2 by (simp add: without_def)
  next
    assume "fs (parquet_meta_path d) = None"
    then have "?e \<in> set (trace ?w2)" using w2 by simp
    then have "?e \<in> set (trace (fst (?tail ?w2)))"
      using keepsD[OF update_tail_mono, of ?e ?w2] by simp
    then show "?e \<in> set (trace (fst (update_run env argv fs)))" by (simp add: run)
  qed
qed

theorem update_initialize_iff_meta_absent_witness:
  "update_parse_args [(''--ChEMBL'', PNone)] = Inr ((defaults update_arguments)(''ChEMBL'' \<mapsto> PBool True))
   \<and> ((defaults update_arguments)(''ChEMBL'' \<mapsto> PBool True)) ''destinationPath'' = Some (PStr ''Data'')
   \<and> [''Data/refined_chembl/CTA_meta.parquet'' \<mapsto> Data ()] (parquet_meta_path ''Data'') \<noteq> None
   \<and> Called ''initialize_CTA_files'' \<notin> set (trace (fst (update_run demo_update_env [(''--ChEMBL'', PNone)]
         [''Data/refined_chembl/CTA_meta.parquet'' \<mapsto> Data ()])))"
proof -
  have p: "update_parse_args [(''--ChEMBL'', PNone)] = Inr ((defaults update_arguments)(''ChEMBL'' \<mapsto> PBool True))"
    by (simp add: update_parse_args_def parse_def update_arguments_def)
  have d: "((defaults update_arguments)(''ChEMBL'' \<mapsto> PBool True)) ''destinationPath'' = Some (PStr ''Data'')"
    by (simp add: update_arguments_def)
  have m: "[''Data/refined_chembl/CTA_meta.parquet'' \<mapsto> Data ()] (parquet_meta_path ''Data'') \<noteq> None"
    by (simp add: parquet_meta_path_def path_join_def)
  show ?thesis
    using update_initialize_iff_meta_absent[OF p d, of demo_update_env
        "[''Data/refined_chembl/CTA_meta.parquet'' \<mapsto> Data ()]"] p d m
    by simp
qed

text \<open>
  Claim C10. A run of the update script with \<^verbatim>\<open>--NPs\<close> and a non-empty \<^verbatim>\<open>--NPs_data\<close> path
  ends in \<^verbatim>\<open>AttributeError\<close> for the attribute \<^verbatim>\<open>verbose\<close>, which the parser of this script
  never stores, and \<^verbatim>\<open>refine_NPs_data\<close> is not called: the arguments of the call are
  evaluated first, and the last of them is \<^verbatim>\<open>args.verbose\<close>.
\<close>

theorem update_NPs_branch_raises_AttributeError:
  assumes parse: "update_parse_args argv = Inr args"
    and dest: "args ''destinationPath'' = Some (PStr d)"
    and nps: "args ''NPs'' = Some n" "truthy n"
    and path: "args ''NPs_dataPath'' = Some p" "truthy p"
  shows "snd (update_run env argv fs) = Inl (AttributeError ''verbose'')
       \<and> Called ''refine_NPs_data'' \<notin> set (trace (fst (update_run env argv fs)))"
proof -
  let ?dir = "path_join d ''refined_chembl''"
  let ?w1 = "fst (update_setup argv d \<lparr>files = fs, trace = []\<rparr>)"
  let ?w2 = "fst (update_init env ?dir ?w1)"
  let ?w3 = "fst (update_chembl env args ?dir ?w2)"
  have nov: "args ''verbose'' = None"
    using parse by (rule update_no_verbose)
  have "update_run env argv fs
          = and_then (update_NPs env args) (emit (Stamp ''End time: '')) ?w3"
    by (simp add: update_run_unfold[OF parse dest] and_then_Inr update_chembl_result[OF parse])
  also have "\<dots> = (?w3, Inl (AttributeError ''verbose''))"
    using update_NPs_raises[OF nov nps path dest, of env ?w3]
    by (simp add: and_then_def bnd_Inl)
  finally have run: "update_run env argv fs = (?w3, Inl (AttributeError ''verbose''))" .
  have "without (Called ''refine_NPs_data'') ?w1"
    by (simp add: without_def update_setup_meta(2))
  then have "without (Called ''refine_NPs_data'') ?w2"
    by (rule keepsD[OF update_init_without_refine])
  then have "without (Called ''refine_NPs_data'') ?w3"
    by (rule keepsD[OF update_chembl_without_refine])
  with run show ?thesis by (simp add: without_def)
qed

theorem update_NPs_branch_raises_AttributeError_witness:
  "update_parse_args [(''--NPs'', PNone), (''--NPs_data'', PStr ''coconut.csv'')]
     = Inr ((defaults update_arguments)(''NPs'' \<mapsto> PBool True, ''NPs_dataPath'' \<mapsto> PStr ''coconut.csv''))
   \<and> truthy (PBool True) \<and> truthy (PStr ''coconut.csv'')
   \<and> snd (update_run demo_update_env [(''--NPs'', PNone), (''--NPs_data'', PStr ''coconut.csv'')] Map.empty)
        = Inl (AttributeError ''verbose'')
   \<and> Called ''refine_NPs_data'' \<notin> set (trace (fst (update_run demo_update_env
        [(''--NPs'', PNone), (''--NPs_data'', PStr ''coconut.csv'')] Map.empty)))"
proof -
  let ?args = "(defaults update_arguments)(''NPs'' \<mapsto> PBool True, ''NPs_dataPath'' \<mapsto> PStr ''coconut.csv'')"
  have p: "update_parse_args [(''--NPs'', PNone), (''--NPs_data'', PStr ''coconut.csv'')] = Inr ?args"
    by (simp add: update_parse_args_def parse_def update_arguments_def conv_str_def)
  have d: "?args ''destinationPath'' = Some (PStr ''Data'')"
    by (simp add: update_arguments_def)
  have n: "?args ''NPs'' = Some (PBool True)" "truthy (PBool True)"
    by (simp_all add: update_arguments_def)
  have q: "?args ''NPs_dataPath'' = Some (PStr ''coconut.csv'')" "truthy (PStr ''coconut.csv'')"
    by (simp_all add: update_arguments_def)
  show ?thesis
    using update_NPs_branch_raises_AttributeError[OF p d n q, of demo_update_env Map.empty] p
    by simp
qed

section \<open>Argument handling of generate_CTA.py and predict_targets.py\<close>

lemma parse_argv_error:
  "parse_argv specs argv ns = Inl e \<Longrightarrow> \<exists>msg. msg \<noteq> [] \<and> e = SystemExit 2 msg"
proof (induction argv arbitrary: ns)
  case Nil
  then show ?case by simp
next
  case (Cons fv rest)
  obtain f v where fv: "fv = (f, v)" by (cases fv)
  show ?case
  proof (cases "find (\<lambda>a. flag a = f) specs")
    case None
    with Cons.prems fv show ?thesis by auto
  next
    case (Some a)
    with Cons.prems fv Cons.IH show ?thesis
      by (cases "act a"; cases "conv a v"; cases "choices a") (auto split: if_splits)
  qed
qed

text \<open>An argument whose conversion fails makes the parser exit, wherever it stands.\<close>

lemma parse_argv_rejects:
  assumes "(f, v) \<in> set argv" and "find (\<lambda>a. flag a = f) specs = Some a"
    and "act a = Store" and "conv a v = Inl m"
  shows "\<exists>msg. msg \<noteq> [] \<and> parse_argv specs argv ns = Inl (SystemExit 2 msg)"
  using assms(1)
proof (induction argv arbitrary: ns)
  case Nil
  then show ?case by simp
next
  case (Cons fv rest)
  show ?case
  proof (cases "fv = (f, v)")
    case True
    with assms(2-4) show ?thesis by simp
  next
    case False
    with Cons.prems have mem: "(f, v) \<in> set rest" by simp
    show ?thesis
    proof (cases "parse_argv specs (fv # rest) ns")
      case (Inl e)
      with parse_argv_error[OF Inl] show ?thesis by auto
    next
      case (Inr ns')
      obtain f' v' where fv: "fv = (f', v')" by (cases fv)
      from Inr fv have "parse_argv specs ((f', v') # rest) ns = Inr ns'" by simp
      from parse_argv_step[OF this] obtain b :: argument and u
        where ok: "parse_argv specs rest (ns(dest b \<mapsto> u)) = Inr ns'" by auto
      from Cons.IH[OF mem] obtain msg
        where "parse_argv specs rest (ns(dest b \<mapsto> u)) = Inl (SystemExit 2 msg)" by blast
      with ok show ?thesis by simp
    qed
  qed
qed

lemma int_range_rejects:
  assumes "num_of v = Some x" "x < of_int lo \<or> of_int hi < x"
  shows "\<exists>m. int_range lo hi v = Inl m"
  using assms by (cases v) (auto simp: int_range_def)

lemma float_range_rejects:
  assumes "num_of v = Some x" "x < lo \<or> hi < x"
  shows "\<exists>m. float_range lo hi v = Inl m"
  using assms by (auto simp: float_range_def)

lemma generate_parse_rejects:
  assumes "(f, v) \<in> set argv" and "num_of v = Some x"
    and "f = ''--nBits'' \<and> (x < 8 \<or> 2048 < x) \<or> f = ''--Tc'' \<and> (x < 1 / 10 \<or> 1 < x)
         \<or> f = ''--sv'' \<and> (x < 1 / 100 \<or> 10000 < x)"
  shows "\<exists>msg. msg \<noteq> [] \<and> generate_parse_args argv = Inl (SystemExit 2 msg)"
proof -
  from assms(3) consider (nBits) "f = ''--nBits''" "x < 8 \<or> 2048 < x"
    | (Tc) "f = ''--Tc''" "x < 1 / 10 \<or> 1 < x"
    | (sv) "f = ''--sv''" "x < 1 / 100 \<or> 10000 < x"
    by blast
  then show ?thesis
  proof cases
    case nBits
    from int_range_rejects[of v x 8 2048] assms(2) nBits(2) obtain m where "int_range 8 2048 v = Inl m"
      by auto
    with nBits(1) show ?thesis
      unfolding generate_parse_args_def parse_def
      by (intro parse_argv_rejects[OF assms(1), where m = m and a = "generate_arguments ! 3"])
        (simp_all add: generate_arguments_def)
  next
    case Tc
    from float_range_rejects[of v x "1 / 10" 1] assms(2) Tc(2) obtain m where "float_range (1 / 10) 1 v = Inl m"
      by auto
    with Tc(1) show ?thesis
      unfolding generate_parse_args_def parse_def
      by (intro parse_argv_rejects[OF assms(1), where m = m and a = "generate_arguments ! 1"])
        (simp_all add: generate_arguments_def)
  next
    case sv
    from float_range_rejects[of v x "1 / 100" 10000] assms(2) sv(2) obtain m where "float_range (1 / 100) 10000 v = Inl m"
      by auto
    with sv(1) show ?thesis
      unfolding generate_parse_args_def parse_def
      by (intro parse_argv_rejects[OF assms(1), where m = m and a = "generate_arguments ! 0"])
        (simp_all add: generate_arguments_def)
  qed
qed

lemma predict_parse_rejects:
  assumes "(''--nBits'', v) \<in> set argv" and "num_of v = Some x" and "x < 8 \<or> 2048 < x"
  shows "\<exists>msg. msg \<noteq> [] \<and> predict_parse_args argv = Inl (SystemExit 2 msg)"
proof -
  from int_range_rejects[of v x 8 2048] assms(2,3) obtain m where "int_range 8 2048 v = Inl m"
    by auto
  then show ?thesis
    unfolding predict_parse_args_def parse_def
    by (intro parse_argv_rejects[OF assms(1), where m = m and a = "predict_arguments ! 1"])
      (simp_all add: predict_arguments_def)
qed

lemma generate_setup_result: "snd (generate_setup argv out w) = Inr ()"
  by (simp add: generate_setup_def and_then_def bnd_def makedirs_def open_append_def emit_def)

lemma predict_setup_result: "snd (predict_setup argv out w) = Inr ()"
  by (simp add: predict_setup_def and_then_def bnd_def makedirs_def open_append_def emit_def)

lemma generate_main_unfold:
  assumes "generate_parse_args argv = Inr args" and "args ''outputPath'' = Some (PStr out)"
    and "set_fingerprint_fields args = Inr args'"
  shows "generate_main env argv w =
           and_then (call ''createCTA'' (createCTA env args' (path_join out ''CTA_datasets/'')))
             (emit (Stamp (CHR 0x0A # ''Finish time: ''))) (fst (generate_setup argv out w))"
proof -
  have "generate_main env argv =
          bnd (generate_setup argv out) (\<lambda>_.
            and_then (call ''createCTA'' (createCTA env args' (path_join out ''CTA_datasets/'')))
              (emit (Stamp (CHR 0x0A # ''Finish time: ''))))"
    using assms
    by (simp add: generate_main_def generate_setup_def bnd_lift_Inr bnd_attr[of args] bnd_as_path
        and_then_assoc bnd_const and_then_nested)
  then show ?thesis
    by (simp add: bnd_Inr[OF generate_setup_result])
qed

lemma predict_main_unfold:
  assumes "predict_parse_args argv = Inr args" and "args ''outputPath'' = Some (PStr out)"
    and "assert_query_resource_files env args (files (fst (predict_setup argv out w))) = (True, args1)"
    and "set_fingerprint_fields args1 = Inr args2"
  shows "predict_main env argv w =
           bnd (load_reference env args2) (predict_queries env args2) (fst (predict_setup argv out w))"
proof -
  have "predict_main env argv =
          bnd (predict_setup argv out) (\<lambda>_.
          bnd (\<lambda>w. (w, Inr (assert_query_resource_files env args (files w)))) (\<lambda>(ok, args1).
            if \<not> ok then
              and_then (emit (Stamp (CHR 0x0A # ''Finish time: ''))) (throw (SystemExit 0 []))
            else
              bnd (lift (set_fingerprint_fields args1)) (\<lambda>args2.
              bnd (load_reference env args2) (predict_queries env args2))))"
    using assms(1,2)
    unfolding predict_queries_def
    by (simp add: predict_main_def predict_setup_def bnd_lift_Inr bnd_attr[of args] bnd_as_path
        and_then_assoc bnd_const and_then_nested)
  then show ?thesis
    using assms(3,4)
    by (simp add: bnd_Inr[OF predict_setup_result] bnd_def lift_def)
qed

lemma set_fingerprint_fields_maccs_avalon:
  assumes "args ''fingerprint'' = Some f"
  shows "\<exists>args'. set_fingerprint_fields args = Inr args' \<and>
     (f = PStr ''maccs'' \<longrightarrow> args' ''nBits'' = Some (PInt 116) \<and> args' ''radius'' = Some PNone) \<and>
     (f = PStr ''avalon'' \<longrightarrow> args' ''radius'' = Some PNone \<and> args' ''nBits'' = args ''nBits'')"
  using assms by (simp add: set_fingerprint_fields_def getattr_def)

text \<open>
  Claim C2. In both scripts the namespace that leaves argument handling, the one handed to
  \<^verbatim>\<open>createCTA\<close> and to \<^verbatim>\<open>select_CTA_reference_dataset\<close>, has nBits 116 and radius None for
  every invocation that asks for the maccs scheme, whatever the user gave, and radius None
  and the nBits the user gave for the avalon scheme.
\<close>

theorem fingerprint_fields_handed_on_by_both_scripts:
  assumes gp: "generate_parse_args argv = Inr gargs"
    and go: "gargs ''outputPath'' = Some (PStr gout)"
    and gf: "gargs ''fingerprint'' = Some gf"
    and pp: "predict_parse_args argv' = Inr pargs"
    and po: "pargs ''outputPath'' = Some (PStr pout)"
    and pa: "assert_query_resource_files penv pargs (files (fst (predict_setup argv' pout pw))) = (True, args1)"
    and pf: "args1 ''fingerprint'' = Some pf"
  shows "(\<exists>args'. set_fingerprint_fields gargs = Inr args'
          \<and> (gf = PStr ''maccs'' \<longrightarrow> args' ''nBits'' = Some (PInt 116) \<and> args' ''radius'' = Some PNone)
          \<and> (gf = PStr ''avalon'' \<longrightarrow> args' ''radius'' = Some PNone \<and> args' ''nBits'' = gargs ''nBits'')
          \<and> generate_main genv argv gw =
                and_then (call ''createCTA'' (createCTA genv args' (path_join gout ''CTA_datasets/'')))
                  (emit (Stamp (CHR 0x0A # ''Finish time: ''))) (fst (generate_setup argv gout gw)))
       \<and> (\<exists>args2. set_fingerprint_fields args1 = Inr args2
          \<and> (pf = PStr ''maccs'' \<longrightarrow> args2 ''nBits'' = Some (PInt 116) \<and> args2 ''radius'' = Some PNone)
          \<and> (pf = PStr ''avalon'' \<longrightarrow> args2 ''radius'' = Some PNone \<and> args2 ''nBits'' = args1 ''nBits'')
          \<and> predict_main penv argv' pw =
                bnd (load_reference penv args2) (predict_queries penv args2)
                  (fst (predict_setup argv' pout pw))
          \<and> load_reference penv args2 (fst (predict_setup argv' pout pw)) =
                ((fst (predict_setup argv' pout pw))
                   \<lparr>CTA := reference_table penv args2
                      (fst (select_CTA_reference_dataset penv args2 (files (fst (predict_setup argv' pout pw)))))\<rparr>,
                 Inr (snd (select_CTA_reference_dataset penv args2 (files (fst (predict_setup argv' pout pw)))))))"
proof
  from set_fingerprint_fields_maccs_avalon[of gargs, OF gf] obtain args'
    where a: "set_fingerprint_fields gargs = Inr args'"
      "gf = PStr ''maccs'' \<longrightarrow> args' ''nBits'' = Some (PInt 116) \<and> args' ''radius'' = Some PNone"
      "gf = PStr ''avalon'' \<longrightarrow> args' ''radius'' = Some PNone \<and> args' ''nBits'' = gargs ''nBits''"
    by blast
  from generate_main_unfold[of argv gargs, OF gp go a(1)] a
  show "\<exists>args'. set_fingerprint_fields gargs = Inr args'
          \<and> (gf = PStr ''maccs'' \<longrightarrow> args' ''nBits'' = Some (PInt 116) \<and> args' ''radius'' = Some PNone)
          \<and> (gf = PStr ''avalon'' \<longrightarrow> args' ''radius'' = Some PNone \<and> args' ''nBits'' = gargs ''nBits'')
          \<and> generate_main genv argv gw =
                and_then (call ''createCTA'' (createCTA genv args' (path_join gout ''CTA_datasets/'')))
                  (emit (Stamp (CHR 0x0A # ''Finish time: ''))) (fst (generate_setup argv gout gw))"
    by blast
next
  from set_fingerprint_fields_maccs_avalon[of args1, OF pf] obtain args2
    where a: "set_fingerprint_fields args1 = Inr args2"
      "pf = PStr ''maccs'' \<longrightarrow> args2 ''nBits'' = Some (PInt 116) \<and> args2 ''radius'' = Some PNone"
      "pf = PStr ''avalon'' \<longrightarrow> args2 ''radius'' = Some PNone \<and> args2 ''nBits'' = args1 ''nBits''"
    by blast
  have l: "load_reference penv args2 (fst (predict_setup argv' pout pw)) =
                ((fst (predict_setup argv' pout pw))
                   \<lparr>CTA := reference_table penv args2
                      (fst (select_CTA_reference_dataset penv args2 (files (fst (predict_setup argv' pout pw)))))\<rparr>,
                 Inr (snd (select_CTA_reference_dataset penv args2 (files (fst (predict_setup argv' pout pw))))))"
    by (simp add: load_reference_def split: prod.splits)
  from predict_main_unfold[of argv' pargs, OF pp po pa a(1)] a l
  show "\<exists>args2. set_fingerprint_fields args1 = Inr args2
          \<and> (pf = PStr ''maccs'' \<longrightarrow> args2 ''nBits'' = Some (PInt 116) \<and> args2 ''radius'' = Some PNone)
          \<and> (pf = PStr ''avalon'' \<longrightarrow> args2 ''radius'' = Some PNone \<and> args2 ''nBits'' = args1 ''nBits'')
          \<and> predict_main penv argv' pw =
                bnd (load_reference penv args2) (predict_queries penv args2)
                  (fst (predict_setup argv' pout pw))
          \<and> load_reference penv args2 (fst (predict_setup argv' pout pw)) =
                ((fst (predict_setup argv' pout pw))
                   \<lparr>CTA := reference_table penv args2
                      (fst (select_CTA_reference_dataset penv args2 (files (fst (predict_setup argv' pout pw)))))\<rparr>,
                 Inr (snd (select_CTA_reference_dataset penv args2 (files (fst (predict_setup argv' pout pw))))))"
    by blast
qed

theorem fingerprint_fields_handed_on_by_both_scripts_witness:
  "generate_parse_args [(''--fingerprint'', PStr ''maccs''), (''--nBits'', PInt 512), (''--radius'', PInt 3)]
     = Inr ((defaults generate_arguments)
         (''fingerprint'' \<mapsto> PStr ''maccs'', ''nBits'' \<mapsto> PInt 512, ''radius'' \<mapsto> PInt 3))
   \<and> predict_parse_args [(''--fingerprint'', PStr ''maccs''), (''--nBits'', PInt 512), (''--radius'', PInt 3)]
     = Inr ((defaults predict_arguments)
         (''fingerprint'' \<mapsto> PStr ''maccs'', ''nBits'' \<mapsto> PInt 512, ''radius'' \<mapsto> PInt 3))
   \<and> (\<exists>args'. args' ''nBits'' = Some (PInt 116) \<and> args' ''radius'' = Some PNone
        \<and> generate_main demo_generate_env
              [(''--fingerprint'', PStr ''maccs''), (''--nBits'', PInt 512), (''--radius'', PInt 3)]
              \<lparr>files = Map.empty, trace = []\<rparr>
            = and_then (call ''createCTA'' (createCTA demo_generate_env args' (path_join ''output'' ''CTA_datasets/'')))
                (emit (Stamp (CHR 0x0A # ''Finish time: '')))
                (fst (generate_setup
                   [(''--fingerprint'', PStr ''maccs''), (''--nBits'', PInt 512), (''--radius'', PInt 3)]
                   ''output'' \<lparr>files = Map.empty, trace = []\<rparr>)))
   \<and> (\<exists>args2. args2 ''nBits'' = Some (PInt 116) \<and> args2 ''radius'' = Some PNone
        \<and> predict_main demo_predict_env
              [(''--fingerprint'', PStr ''maccs''), (''--nBits'', PInt 512), (''--radius'', PInt 3)]
              (demo_state demo_files)
            = bnd (load_reference demo_predict_env args2) (predict_queries demo_predict_env args2)
                (fst (predict_setup
                   [(''--fingerprint'', PStr ''maccs''), (''--nBits'', PInt 512), (''--radius'', PInt 3)]
                   ''output'' (demo_state demo_files))))"
proof -
  let ?argv = "[(''--fingerprint'', PStr ''maccs''), (''--nBits'', PInt 512), (''--radius'', PInt 3)]"
  let ?gargs = "(defaults generate_arguments)
         (''fingerprint'' \<mapsto> PStr ''maccs'', ''nBits'' \<mapsto> PInt 512, ''radius'' \<mapsto> PInt 3)"
  let ?pargs = "(defaults predict_arguments)
         (''fingerprint'' \<mapsto> PStr ''maccs'', ''nBits'' \<mapsto> PInt 512, ''radius'' \<mapsto> PInt 3)"
  let ?args1 = "?pargs(''datNames'' \<mapsto> PList [PStr ''QueryList1'', PStr ''QueryList2'', PStr ''QueryList3''])"
  have gp: "generate_parse_args ?argv = Inr ?gargs"
    by (simp add: generate_parse_args_def parse_def generate_arguments_def conv_str_def conv_int_def
        int_range_def fingerprint_choices_def)
  have go: "?gargs ''outputPath'' = Some (PStr ''output'')"
    by (simp add: generate_arguments_def)
  have gf: "?gargs ''fingerprint'' = Some (PStr ''maccs'')"
    by simp
  have pp: "predict_parse_args ?argv = Inr ?pargs"
    by (simp add: predict_parse_args_def parse_def predict_arguments_def conv_str_def conv_int_def
        int_range_def fingerprint_choices_def)
  have po: "?pargs ''outputPath'' = Some (PStr ''output'')"
    by (simp add: predict_arguments_def)
  have pa: "assert_query_resource_files demo_predict_env ?pargs
              (files (fst (predict_setup ?argv ''output'' (demo_state demo_files)))) = (True, ?args1)"
    by (simp add: demo_predict_env_def)
  have pf: "?args1 ''fingerprint'' = Some (PStr ''maccs'')"
    by simp
  from fingerprint_fields_handed_on_by_both_scripts[of ?argv ?gargs "''output''" "PStr ''maccs''"
      ?argv ?pargs "''output''" demo_predict_env "demo_state demo_files" ?args1 "PStr ''maccs''"
      demo_generate_env "\<lparr>files = Map.empty, trace = []\<rparr>", OF gp go gf pp po pa pf]
  have "(\<exists>args'. args' ''nBits'' = Some (PInt 116) \<and> args' ''radius'' = Some PNone
        \<and> generate_main demo_generate_env ?argv \<lparr>files = Map.empty, trace = []\<rparr>
            = and_then (call ''createCTA'' (createCTA demo_generate_env args' (path_join ''output'' ''CTA_datasets/'')))
                (emit (Stamp (CHR 0x0A # ''Finish time: '')))
                (fst (generate_setup ?argv ''output'' \<lparr>files = Map.empty, trace = []\<rparr>)))
   \<and> (\<exists>args2. args2 ''nBits'' = Some (PInt 116) \<and> args2 ''radius'' = Some PNone
        \<and> predict_main demo_predict_env ?argv (demo_state demo_files)
            = bnd (load_reference demo_predict_env args2) (predict_queries demo_predict_env args2)
                (fst (predict_setup ?argv ''output'' (demo_state demo_files))))"
    by blast
  with gp pp show ?thesis by blast
qed

text \<open>
  Claim C8. An invocation that gives nBits outside 8 to 2048, Tc outside 0.1 to 1.0 or the
  standard value outside 0.01 to 10000 ends inside \<^verbatim>\<open>parse_args\<close>, the first statement of
  \<^verbatim>\<open>main\<close>: the process exits with status 2 and a message, and the world is as it was,
  no folder made, no log opened, no data touched. Both scripts take nBits; Tc and the
  standard value belong to \<^verbatim>\<open>generate_CTA.py\<close>.
\<close>

theorem out_of_range_parameter_rejected:
  assumes "(f, v) \<in> set argv" and "num_of v = Some x"
    and "f = ''--nBits'' \<and> (x < 8 \<or> 2048 < x) \<or> f = ''--Tc'' \<and> (x < 1 / 10 \<or> 1 < x)
         \<or> f = ''--sv'' \<and> (x < 1 / 100 \<or> 10000 < x)"
  shows "(\<exists>msg. msg \<noteq> [] \<and> generate_main genv argv w = (w, Inl (SystemExit 2 msg)))
       \<and> (f = ''--nBits'' \<longrightarrow> (\<exists>msg. msg \<noteq> [] \<and> predict_main penv argv pw = (pw, Inl (SystemExit 2 msg))))"
proof
  from generate_parse_rejects[OF assms] obtain msg
    where "msg \<noteq> []" "generate_parse_args argv = Inl (SystemExit 2 msg)" by blast
  then show "\<exists>msg. msg \<noteq> [] \<and> generate_main genv argv w = (w, Inl (SystemExit 2 msg))"
    by (auto simp: generate_main_def bnd_def lift_def)
next
  show "f = ''--nBits'' \<longrightarrow> (\<exists>msg. msg \<noteq> [] \<and> predict_main penv argv pw = (pw, Inl (SystemExit 2 msg)))"
  proof
    assume f: "f = ''--nBits''"
    with assms(3) have "x < 8 \<or> 2048 < x" by auto
    from predict_parse_rejects[OF assms(1)[unfolded f] assms(2) this] obtain msg
      where "msg \<noteq> []" "predict_parse_args argv = Inl (SystemExit 2 msg)" by blast
    then show "\<exists>msg. msg \<noteq> [] \<and> predict_main penv argv pw = (pw, Inl (SystemExit 2 msg))"
      by (auto simp: predict_main_def bnd_def lift_def)
  qed
qed

theorem out_of_range_parameter_rejected_witness:
  "(''--nBits'', PInt 4096) \<in> set [(''--fingerprint'', PStr ''ecfp''), (''--nBits'', PInt 4096)]
   \<and> num_of (PInt 4096) = Some 4096 \<and> (2048 :: real) < 4096
   \<and> (\<exists>msg. msg \<noteq> [] \<and>
        generate_main demo_generate_env [(''--fingerprint'', PStr ''ecfp''), (''--nBits'', PInt 4096)]
          \<lparr>files = Map.empty, trace = []\<rparr>
        = (\<lparr>files = Map.empty, trace = []\<rparr>, Inl (SystemExit 2 msg)))
   \<and> (\<exists>msg. msg \<noteq> [] \<and>
        predict_main demo_predict_env [(''--fingerprint'', PStr ''ecfp''), (''--nBits'', PInt 4096)]
          \<lparr>files = Map.empty, trace = [], CTA = []\<rparr>
        = (\<lparr>files = Map.empty, trace = [], CTA = []\<rparr>, Inl (SystemExit 2 msg)))"
  using out_of_range_parameter_rejected[of "''--nBits''" "PInt 4096"
      "[(''--fingerprint'', PStr ''ecfp''), (''--nBits'', PInt 4096)]" 4096
      demo_generate_env "\<lparr>files = Map.empty, trace = []\<rparr>"
      demo_predict_env "\<lparr>files = Map.empty, trace = [], CTA = []\<rparr>"]
  by simp


section \<open>predict_targets.py: the loop over the query lists\<close>

lemma query_loop_Cons:
  assumes "args ''inputPath'' = Some (PStr i)"
  shows "query_loop env args CTA_id (PStr name # rest) w =
     (let w0 = w\<lparr>trace := trace w @ [LogValue ''Data set: {}'' (PStr name)]\<rparr> in
      case files w (path_join i (name @ ''_smiles.csv'')) of
        None \<Rightarrow>
          (w0\<lparr>trace := trace w0 @
              [Print (''Error, file not found '' @ path_join i (name @ ''_smiles.csv'')),
               Print smiles_file_hint]\<rparr>,
           Inr False)
      | Some node \<Rightarrow>
          and_then (process_query_list env args CTA_id name node) (query_loop env args CTA_id rest) w0)"
proof -
  have "query_loop env args CTA_id (PStr name # rest) =
     and_then (emit (LogValue ''Data set: {}'' (PStr name)))
       (\<lambda>w. case files w (path_join i (name @ ''_smiles.csv'')) of
            None \<Rightarrow>
              and_then (emit (Print (''Error, file not found '' @ path_join i (name @ ''_smiles.csv''))))
             (and_then (emit (Print smiles_file_hint))
                       (ret False)) w
          | Some node \<Rightarrow>
              and_then (process_query_list env args CTA_id name node)
                       (query_loop env args CTA_id rest) w)"
    by (simp only: query_loop.simps bnd_attr[of args, OF assms] bnd_as_text bnd_as_path)
  then show ?thesis
    by (simp add: and_then_def bnd_def emit_def ret_def Let_def split: option.splits)
qed

lemma process_query_list_empty:
  assumes "similarity_search env args (CTA w) node = []"
  shows "process_query_list env args CTA_id name node w = (w, Inr ())"
  using assms by (simp add: process_query_list_def ret_def)

lemma bnd_files_case:
  "bnd (\<lambda>w. case files w p of None \<Rightarrow> A w | Some n \<Rightarrow> B n w) g
     = (\<lambda>w. case files w p of None \<Rightarrow> bnd A g w | Some n \<Rightarrow> bnd (B n) g w)"
  by (rule ext) (simp add: bnd_def split: option.splits)

lemma query_loop_append:
  "query_loop env args CTA_id (pre @ rest) =
     bnd (query_loop env args CTA_id pre) (\<lambda>b. if b then query_loop env args CTA_id rest else ret False)"
proof (induction pre)
  case Nil
  show ?case by (simp add: query_loop.simps bnd_ret)
next
  case (Cons db pre)
  show ?case
    by (simp add: query_loop.simps and_then_assoc bnd_assoc bnd_files_case bnd_ret Cons.IH
        cong: option.case_cong)
qed

lemma keeps_as_path: "keeps I (as_path v)"
  by (cases v) (simp_all add: as_path_def keeps_ret keeps_throw)

lemma keeps_as_text: "keeps I (as_text v)"
  by (cases v) (simp_all add: as_text_def keeps_ret keeps_throw)

lemma keeps_files_case:
  assumes "keeps I A" and "\<And>n. keeps I (B n)"
  shows "keeps I (\<lambda>w. case files w p of None \<Rightarrow> A w | Some n \<Rightarrow> B n w)"
  using assms by (auto simp: keeps_def split: option.splits)

lemma CTA_emit: "keeps (\<lambda>w. CTA w = c) (emit e)"
  by (simp add: keeps_def emit_def)

lemma CTA_call: "keeps (\<lambda>w. CTA w = c) (call name f)"
  by (simp add: keeps_def call_def)

lemma CTA_makedirs: "keeps (\<lambda>w. CTA w = c) (makedirs p)"
  by (simp add: keeps_def makedirs_def)

lemma CTA_process_query_list: "keeps (\<lambda>w. CTA w = c) (process_query_list env args CTA_id name node)"
proof -
  have "keeps (\<lambda>w. CTA w = c)
          (bnd (attr args ''outputPath'') (\<lambda>p.
           bnd (as_path p) (\<lambda>outputPath.
           and_then (makedirs (path_join outputPath ''potential_targets/''))
                    (call ''rankTargets'' (rankTargets env args sims
                       (path_join (path_join outputPath ''potential_targets/'')
                          (name @ ''_using_dataset_id_'' @ CTA_id @ ''_include_with_k_value_of'')))))))"
    for sims
    by (intro keeps_bnd keeps_and_then keeps_attr keeps_as_path CTA_makedirs CTA_call)
  note rank = this
  show ?thesis
    unfolding keeps_def
  proof (intro allI impI)
    fix w :: "'a predict_state"
    assume c: "CTA w = c"
    show "CTA (fst (process_query_list env args CTA_id name node w)) = c"
    proof (cases "similarity_search env args (CTA w) node = []")
      case True
      then show ?thesis by (simp add: process_query_list_def ret_def c)
    next
      case False
      with keepsD[OF rank[of "similarity_search env args (CTA w) node"], of w] c
      show ?thesis by (simp add: process_query_list_def)
    qed
  qed
qed

lemma CTA_query_loop: "keeps (\<lambda>w. CTA w = c) (query_loop env args CTA_id dbs)"
proof (induction dbs)
  case Nil
  show ?case by (simp add: query_loop.simps keeps_ret)
next
  case (Cons db dbs)
  show ?case
    unfolding query_loop.simps
    by (intro keeps_and_then keeps_bnd keeps_attr keeps_as_text keeps_as_path keeps_files_case
        keeps_ret CTA_emit CTA_process_query_list Cons.IH)
qed

lemma process_query_list_effect:
  "\<exists>F T r. \<forall>w. CTA w = c \<longrightarrow>
      process_query_list env args CTA_id name node w
        = (w\<lparr>files := F (files w), trace := trace w @ T\<rparr>, r)"
proof (cases "similarity_search env args c node = []")
  case True
  then have "\<forall>w. CTA w = c \<longrightarrow> process_query_list env args CTA_id name node w
      = (w\<lparr>files := id (files w), trace := trace w @ []\<rparr>, Inr ())"
    by (simp add: process_query_list_def ret_def)
  then show ?thesis by blast
next
  case False
  note nonempty = this
  show ?thesis
  proof (cases "args ''outputPath''")
    case None
    with nonempty have "\<forall>w. CTA w = c \<longrightarrow> process_query_list env args CTA_id name node w
        = (w\<lparr>files := id (files w), trace := trace w @ []\<rparr>, Inl (AttributeError ''outputPath''))"
      by (simp add: process_query_list_def bnd_def attr_def lift_def getattr_def)
    then show ?thesis by blast
  next
    case (Some v)
    show ?thesis
    proof (cases "\<exists>p. v = PStr p")
      case True
      then obtain p where v: "v = PStr p" by blast
      let ?dir = "path_join p ''potential_targets/''"
      let ?F = "\<lambda>fs. rankTargets env args (similarity_search env args c node)
                  (path_join ?dir (name @ ''_using_dataset_id_'' @ CTA_id @ ''_include_with_k_value_of''))
                  (if fs ?dir = None then fs(?dir \<mapsto> Dir) else fs)"
      from nonempty Some v
      have eff: "\<forall>w. CTA w = c \<longrightarrow> process_query_list env args CTA_id name node w
          = (w\<lparr>files := ?F (files w), trace := trace w @ [Called ''rankTargets'']\<rparr>, Inr ())"
        by (simp add: process_query_list_def bnd_def and_then_def attr_def lift_def getattr_def
            as_path_def ret_def makedirs_def call_def)
      show ?thesis
        by (rule exI[where x = ?F], rule exI[where x = "[Called ''rankTargets'']"],
            rule exI[where x = "Inr ()"], rule eff)
    next
      case False
      with nonempty Some
      have "\<forall>w. CTA w = c \<longrightarrow> process_query_list env args CTA_id name node w
          = (w\<lparr>files := id (files w), trace := trace w @ []\<rparr>, Inl (TypeError ''expected str''))"
        by (cases v) (simp_all add: process_query_list_def bnd_def attr_def lift_def getattr_def
            as_path_def throw_def)
      then show ?thesis by blast
    qed
  qed
qed

text \<open>
  Claim C6. A query list whose similarity search finds no pair raises nothing and writes
  nothing: after the heading of the list has been logged the files are as before, neither
  the output folder nor a prediction file is made for it, and the loop goes on with the
  remaining query lists.
\<close>

theorem empty_similarity_gives_no_output:
  assumes inp: "args ''inputPath'' = Some (PStr i)"
    and there: "files w (path_join i (name @ ''_smiles.csv'')) = Some node"
    and empty: "similarity_search env args (CTA w) node = []"
  shows "query_loop env args CTA_id (PStr name # rest) w =
           query_loop env args CTA_id rest (w\<lparr>trace := trace w @ [LogValue ''Data set: {}'' (PStr name)]\<rparr>)"
proof -
  let ?w0 = "w\<lparr>trace := trace w @ [LogValue ''Data set: {}'' (PStr name)]\<rparr>"
  have "process_query_list env args CTA_id name node ?w0 = (?w0, Inr ())"
    by (rule process_query_list_empty) (simp add: empty)
  then show ?thesis
    by (simp add: query_loop_Cons[of args, OF inp] there and_then_def bnd_def)
qed

theorem empty_similarity_gives_no_output_witness:
  "demo_args ''inputPath'' = Some (PStr ''input'')
   \<and> files (demo_state demo_files) (path_join ''input'' (''QueryList2'' @ ''_smiles.csv''))
       = Some (Data (Query_rows [(PStr ''q2'', PStr ''x'')]))
   \<and> similarity_search demo_predict_env demo_args (CTA (demo_state demo_files))
         (Data (Query_rows [(PStr ''q2'', PStr ''x'')])) = []
   \<and> query_loop demo_predict_env demo_args ''7'' (PStr ''QueryList2'' # [PStr ''QueryList3'']) (demo_state demo_files)
       = query_loop demo_predict_env demo_args ''7'' [PStr ''QueryList3'']
           ((demo_state demo_files)\<lparr>trace := trace (demo_state demo_files)
               @ [LogValue ''Data set: {}'' (PStr ''QueryList2'')]\<rparr>)"
proof -
  have inp: "demo_args ''inputPath'' = Some (PStr ''input'')"
    by (simp add: demo_args_def predict_arguments_def)
  have there: "files (demo_state demo_files) (path_join ''input'' (''QueryList2'' @ ''_smiles.csv''))
       = Some (Data (Query_rows [(PStr ''q2'', PStr ''x'')]))"
    by (simp add: demo_state_def demo_files_def path_join_def)
  have empty: "similarity_search demo_predict_env demo_args (CTA (demo_state demo_files))
         (Data (Query_rows [(PStr ''q2'', PStr ''x'')])) = []"
    by code_simp
  from empty_similarity_gives_no_output[OF inp there empty, of "''7''" "[PStr ''QueryList3'']"] inp there empty
  show ?thesis by simp
qed

text \<open>
  Claim C1, as the code has it. When the file of a requested query list is absent, the two
  lines that name the file are printed to the terminal and the loop over the query lists
  is left: the lists before it have been processed and keep their output, the missing list
  and every list after it are not processed and produce no output, and the loop ends
  without an exception.
\<close>

theorem missing_query_file_ends_loop:
  assumes pre: "query_loop env args CTA_id pre w = (w1, Inr True)"
    and inp: "args ''inputPath'' = Some (PStr i)"
    and missing: "files w1 (path_join i (name @ ''_smiles.csv'')) = None"
  shows "query_loop env args CTA_id (pre @ PStr name # rest) w =
           (w1\<lparr>trace := trace w1 @
               [LogValue ''Data set: {}'' (PStr name),
                Print (''Error, file not found '' @ path_join i (name @ ''_smiles.csv'')),
                Print smiles_file_hint]\<rparr>,
            Inr False)"
proof -
  have "query_loop env args CTA_id (pre @ PStr name # rest) w
          = query_loop env args CTA_id (PStr name # rest) w1"
    by (simp add: query_loop_append bnd_def pre)
  also have "\<dots> = (w1\<lparr>trace := trace w1 @
               [LogValue ''Data set: {}'' (PStr name),
                Print (''Error, file not found '' @ path_join i (name @ ''_smiles.csv'')),
                Print smiles_file_hint]\<rparr>,
            Inr False)"
    by (simp add: query_loop_Cons[of args, OF inp] missing)
  finally show ?thesis .
qed

theorem missing_query_file_ends_loop_witness:
  "snd (query_loop demo_predict_env demo_args ''7'' [PStr ''QueryList1''] (demo_state demo_files_without_second))
     = Inr True
   \<and> demo_args ''inputPath'' = Some (PStr ''input'')
   \<and> files (fst (query_loop demo_predict_env demo_args ''7'' [PStr ''QueryList1'']
                 (demo_state demo_files_without_second)))
         (path_join ''input'' (''QueryList2'' @ ''_smiles.csv'')) = None
   \<and> snd (query_loop demo_predict_env demo_args ''7''
            ([PStr ''QueryList1''] @ PStr ''QueryList2'' # [PStr ''QueryList3''])
            (demo_state demo_files_without_second)) = Inr False
   \<and> files (fst (query_loop demo_predict_env demo_args ''7''
            ([PStr ''QueryList1''] @ PStr ''QueryList2'' # [PStr ''QueryList3''])
            (demo_state demo_files_without_second)))
       = files (fst (query_loop demo_predict_env demo_args ''7'' [PStr ''QueryList1'']
            (demo_state demo_files_without_second)))"
proof -
  let ?w = "demo_state demo_files_without_second"
  let ?w1 = "fst (query_loop demo_predict_env demo_args ''7'' [PStr ''QueryList1''] ?w)"
  have h1: "snd (query_loop demo_predict_env demo_args ''7'' [PStr ''QueryList1''] ?w) = Inr True"
    by code_simp
  then have pre: "query_loop demo_predict_env demo_args ''7'' [PStr ''QueryList1''] ?w = (?w1, Inr True)"
    by (simp add: prod_eq_iff)
  have inp: "demo_args ''inputPath'' = Some (PStr ''input'')"
    by (simp add: demo_args_def predict_arguments_def)
  have missing: "files ?w1 (path_join ''input'' (''QueryList2'' @ ''_smiles.csv'')) = None"
    by code_simp
  from missing_query_file_ends_loop[OF pre inp missing, of "[PStr ''QueryList3'']"] h1 inp missing
  show ?thesis by simp
qed

text \<open>
  The claim as the spec words it fails on a run that asks for three lists with the file of
  the second one absent: the third list has its file and would get a prediction file, as the
  run with all three files shows, but the run ends without one.
\<close>

theorem missing_file_stops_later_lists_counterexample:
  "demo_files_without_second ''input/QueryList2_smiles.csv'' = None
   \<and> demo_files_without_second ''input/QueryList3_smiles.csv'' \<noteq> None
   \<and> snd (predict_run demo_predict_env [] demo_files_without_second) = Inr ()
   \<and> files (fst (predict_run demo_predict_env [] demo_files_without_second))
         ''output/potential_targets/QueryList3_using_dataset_id_7_include_with_k_value_of_1.csv'' = None
   \<and> files (fst (predict_run demo_predict_env [] demo_files))
         ''output/potential_targets/QueryList3_using_dataset_id_7_include_with_k_value_of_1.csv'' \<noteq> None"
  by code_simp

text \<open>
  Claim C9. The reference table is stored in \<^verbatim>\<open>CTA\<close> before the loop and no statement of the
  loop assigns it: the loop over any query lists and the processing of any one list leave
  \<^verbatim>\<open>CTA\<close> as it was. What processing a list does to the files and the log, and how it ends,
  is the same from every state with that reference table: it is fixed by the reference
  table and the content of the list's input file.
\<close>

theorem reference_table_unchanged_by_query_lists:
  "CTA (fst (query_loop env args CTA_id dbs w)) = CTA w
   \<and> CTA (fst (process_query_list env args CTA_id name node w)) = CTA w
   \<and> (\<exists>F T r. \<forall>w'. CTA w' = CTA w \<longrightarrow>
         process_query_list env args CTA_id name node w'
           = (w'\<lparr>files := F (files w'), trace := trace w' @ T\<rparr>, r))"
proof (intro conjI)
  show "CTA (fst (query_loop env args CTA_id dbs w)) = CTA w"
    using keepsD[OF CTA_query_loop[of "CTA w" env args CTA_id dbs], of w] by simp
  show "CTA (fst (process_query_list env args CTA_id name node w)) = CTA w"
    using keepsD[OF CTA_process_query_list[of "CTA w" env args CTA_id name node], of w] by simp
  show "\<exists>F T r. \<forall>w'. CTA w' = CTA w \<longrightarrow>
         process_query_list env args CTA_id name node w'
           = (w'\<lparr>files := F (files w'), trace := trace w' @ T\<rparr>, r)"
    by (rule process_query_list_effect)
qed

theorem reference_table_unchanged_by_query_lists_witness:
  "CTA (demo_state demo_files_without_second) = CTA (demo_state demo_files)
   \<and> CTA (fst (query_loop demo_predict_env demo_args ''7''
         [PStr ''QueryList1'', PStr ''QueryList2'', PStr ''QueryList3''] (demo_state demo_files)))
       = CTA (demo_state demo_files)
   \<and> (\<exists>F T r.
         process_query_list demo_predict_env demo_args ''7'' ''QueryList1''
             (Data (Query_rows [(PStr ''q1'', PStr ''ab'')])) (demo_state demo_files)
           = ((demo_state demo_files)\<lparr>files := F (files (demo_state demo_files)),
                 trace := trace (demo_state demo_files) @ T\<rparr>, r)
       \<and> process_query_list demo_predict_env demo_args ''7'' ''QueryList1''
             (Data (Query_rows [(PStr ''q1'', PStr ''ab'')])) (demo_state demo_files_without_second)
           = ((demo_state demo_files_without_second)\<lparr>files := F (files (demo_state demo_files_without_second)),
                 trace := trace (demo_state demo_files_without_second) @ T\<rparr>, r))"
proof -
  have same: "CTA (demo_state demo_files_without_second) = CTA (demo_state demo_files)"
    by (simp add: demo_state_def)
  from reference_table_unchanged_by_query_lists[of demo_predict_env demo_args "''7''"
      "[PStr ''QueryList1'', PStr ''QueryList2'', PStr ''QueryList3'']" "demo_state demo_files"
      "''QueryList1''" "Data (Query_rows [(PStr ''q1'', PStr ''ab'')])"]
  obtain F T r where loop: "CTA (fst (query_loop demo_predict_env demo_args ''7''
         [PStr ''QueryList1'', PStr ''QueryList2'', PStr ''QueryList3''] (demo_state demo_files)))
       = CTA (demo_state demo_files)"
    and eff: "\<forall>w'. CTA w' = CTA (demo_state demo_files) \<longrightarrow>
         process_query_list demo_predict_env demo_args ''7'' ''QueryList1''
             (Data (Query_rows [(PStr ''q1'', PStr ''ab'')])) w'
           = (w'\<lparr>files := F (files w'), trace := trace w' @ T\<rparr>, r)"
    by blast
  from eff same have
    "process_query_list demo_predict_env demo_args ''7'' ''QueryList1''
             (Data (Query_rows [(PStr ''q1'', PStr ''ab'')])) (demo_state demo_files)
           = ((demo_state demo_files)\<lparr>files := F (files (demo_state demo_files)),
                 trace := trace (demo_state demo_files) @ T\<rparr>, r)
       \<and> process_query_list demo_predict_env demo_args ''7'' ''QueryList1''
             (Data (Query_rows [(PStr ''q1'', PStr ''ab'')])) (demo_state demo_files_without_second)
           = ((demo_state demo_files_without_second)\<lparr>files := F (files (demo_state demo_files_without_second)),
                 trace := trace (demo_state demo_files_without_second) @ T\<rparr>, r)"
    by simp
  with same loop show ?thesis by blast
qed

section \<open>predict_targets.py: the reference table\<close>

lemma set_drop_duplicates: "set (drop_duplicates xs) = set xs"
  by (induction xs rule: drop_duplicates.induct) auto

lemma distinct_drop_duplicates: "distinct (drop_duplicates xs)"
  by (induction xs rule: drop_duplicates.induct) (auto simp: set_drop_duplicates)

lemma at_most_one_match:
  assumes d: "distinct R"
    and f: "\<forall>m f f'. (m, f) \<in> set R \<and> (m, f') \<in> set R \<longrightarrow> f = f'"
  shows "filter (\<lambda>(m, f). m = k) R = [] \<or> (\<exists>f. filter (\<lambda>(m, f). m = k) R = [(k, f)])"
proof (cases "filter (\<lambda>(m, f). m = k) R")
  case Nil
  then show ?thesis by simp
next
  case (Cons x xs)
  have mem: "\<And>y. y \<in> set (filter (\<lambda>(m, f). m = k) R) \<Longrightarrow> fst y = k \<and> y \<in> set R"
    by auto
  have x: "fst x = k" "x \<in> set R"
    using mem[of x] Cons by simp_all
  have "xs = []"
  proof (rule ccontr)
    assume "xs \<noteq> []"
    then obtain y ys where ys: "xs = y # ys" by (cases xs) auto
    then have y: "fst y = k" "y \<in> set R"
      using mem[of y] Cons by simp_all
    from x y f have "snd x = snd y"
      by (metis prod.collapse)
    with x(1) y(1) have "x = y" by (simp add: prod_eq_iff)
    moreover from d have "distinct (filter (\<lambda>(m, f). m = k) R)" by simp
    ultimately show False using Cons ys by simp
  qed
  with Cons x(1) show ?thesis by (cases x) auto
qed

lemma merge_pairs:
  assumes d: "distinct R"
    and f: "\<forall>m f f'. (m, f) \<in> set R \<and> (m, f') \<in> set R \<longrightarrow> f = f'"
  shows "map (\<lambda>r. (molregno r, target_chembl_id r)) (merge_on_molregno L R)
       = map (\<lambda>r. (molregno r, target_chembl_id r))
           (filter (\<lambda>l. filter (\<lambda>(m, f). m = molregno l) R \<noteq> []) L)"
proof (induction L)
  case Nil
  show ?case by (simp add: merge_on_molregno_def)
next
  case (Cons l L)
  from at_most_one_match[OF d f, of "molregno l"]
  show ?case
  proof
    assume "filter (\<lambda>(m, f). m = molregno l) R = []"
    with Cons show ?thesis by (simp add: merge_on_molregno_def)
  next
    assume "\<exists>f. filter (\<lambda>(m, f). m = molregno l) R = [(molregno l, f)]"
    then obtain f where "filter (\<lambda>(m, f). m = molregno l) R = [(molregno l, f)]" ..
    with Cons show ?thesis by (simp add: merge_on_molregno_def)
  qed
qed

lemma reference_table_unique_from_rows:
  assumes rows: "distinct (map (\<lambda>r. (molregno r, target_chembl_id r)) (reference_rows raw))"
    and fps: "\<forall>m f f'. (m, f) \<in> set (reference_fps env args raw) \<and> (m, f') \<in> set (reference_fps env args raw)
               \<longrightarrow> f = f'"
  shows "distinct (map (\<lambda>r. (molregno r, target_chembl_id r)) (reference_table env args raw))"
proof -
  have d: "distinct (reference_fps env args raw)"
    by (simp add: reference_fps_def distinct_drop_duplicates)
  have "distinct (map (\<lambda>r. (molregno r, target_chembl_id r))
          (merge_on_molregno (reference_rows raw) (reference_fps env args raw)))"
    unfolding merge_pairs[OF d fps] using rows by (rule distinct_map_filter)
  then show ?thesis
    unfolding reference_table_def by (rule distinct_map_filter)
qed

lemma reference_rows_from_raw:
  assumes "l \<in> set (reference_rows raw)"
  obtains r where "r \<in> set raw" and "l = cta_row.truncate r"
  using assms by (auto simp: reference_rows_def set_drop_duplicates)

lemma truncate_columns:
  "molregno (cta_row.truncate r) = molregno r"
  "clean_smiles (cta_row.truncate r) = clean_smiles r"
  "target_chembl_id (cta_row.truncate r) = target_chembl_id r"
  by (simp_all add: cta_row.truncate_def)

lemma reference_rows_pairs:
  assumes inv: "selected_dataset_invariant raw"
  shows "distinct (map (\<lambda>r. (molregno r, target_chembl_id r)) (reference_rows raw))"
proof -
  have "distinct (reference_rows raw)"
    by (simp add: reference_rows_def distinct_drop_duplicates)
  moreover have "inj_on (\<lambda>r. (molregno r, target_chembl_id r)) (set (reference_rows raw))"
  proof (rule inj_onI)
    fix l l'
    assume l: "l \<in> set (reference_rows raw)" and l': "l' \<in> set (reference_rows raw)"
      and eq: "(molregno l, target_chembl_id l) = (molregno l', target_chembl_id l')"
    from l obtain r where r: "r \<in> set raw" "l = cta_row.truncate r"
      by (rule reference_rows_from_raw)
    from l' obtain r' where r': "r' \<in> set raw" "l' = cta_row.truncate r'"
      by (rule reference_rows_from_raw)
    from eq r(2) r'(2) have "molregno r = molregno r' \<and> target_chembl_id r = target_chembl_id r'"
      by (simp add: truncate_columns)
    with inv r(1) r'(1) have "cta_row.truncate r = cta_row.truncate r'"
      unfolding selected_dataset_invariant_def by blast
    with r(2) r'(2) show "l = l'" by simp
  qed
  ultimately show ?thesis by (simp add: distinct_map)
qed

lemma reference_fps_functional:
  assumes inv: "selected_dataset_invariant raw"
    and gen: "fingerprints_by_structure env args"
  shows "\<forall>m f f'. (m, f) \<in> set (reference_fps env args raw) \<and> (m, f') \<in> set (reference_fps env args raw)
           \<longrightarrow> f = f'"
proof (intro allI impI, elim conjE)
  fix m f f'
  assume f: "(m, f) \<in> set (reference_fps env args raw)"
    and f': "(m, f') \<in> set (reference_fps env args raw)"
  from gen obtain g where g: "\<And>rows label. set (gen_fps env args rows label) \<subseteq> (\<lambda>(m, s). (m, g s)) ` set rows"
    unfolding fingerprints_by_structure_def by blast
  have src: "\<exists>l \<in> set (reference_rows raw). m = molregno l \<and> x = g (clean_smiles l)"
    if "(m, x) \<in> set (reference_fps env args raw)" for x
    using that g[of "map (\<lambda>r. (molregno r, clean_smiles r)) (reference_rows raw)" "''Reference''"]
    by (auto simp: reference_fps_def set_drop_duplicates)
  from src[OF f] obtain l where l: "l \<in> set (reference_rows raw)" "m = molregno l" "f = g (clean_smiles l)"
    by blast
  from src[OF f'] obtain l' where l': "l' \<in> set (reference_rows raw)" "m = molregno l'" "f' = g (clean_smiles l')"
    by blast
  from l(1) obtain r where r: "r \<in> set raw" "l = cta_row.truncate r"
    by (rule reference_rows_from_raw)
  from l'(1) obtain r' where r': "r' \<in> set raw" "l' = cta_row.truncate r'"
    by (rule reference_rows_from_raw)
  from l(2) l'(2) r(2) r'(2) have "molregno r = molregno r'"
    by (simp add: truncate_columns)
  with inv r(1) r'(1) have "clean_smiles r = clean_smiles r'"
    unfolding selected_dataset_invariant_def by blast
  with l(3) l'(3) r(2) r'(2) show "f = f'"
    by (simp add: truncate_columns)
qed

text \<open>
  Claim C5. No row of the reference table that goes into the similarity search has a
  missing value, so every fingerprint in it is there; and, the selected dataset and the
  fingerprints being as the spec describes them, no (molregno, target_chembl_id) pair
  occurs twice in it: line 93 removes the repeated rows of the dataset and line 95 the
  repeated fingerprints of a compound with several targets.
\<close>

theorem reference_table_no_null_no_duplicate_pair:
  "(\<forall>r \<in> set (reference_table env args raw). complete_cta_fp r)
   \<and> (selected_dataset_invariant raw \<and> fingerprints_by_structure env args
      \<longrightarrow> distinct (map (\<lambda>r. (molregno r, target_chembl_id r)) (reference_table env args raw)))"
proof
  show "\<forall>r \<in> set (reference_table env args raw). complete_cta_fp r"
    by (simp add: reference_table_def)
  show "selected_dataset_invariant raw \<and> fingerprints_by_structure env args
      \<longrightarrow> distinct (map (\<lambda>r. (molregno r, target_chembl_id r)) (reference_table env args raw))"
  proof (intro impI, elim conjE)
    assume inv: "selected_dataset_invariant raw" and gen: "fingerprints_by_structure env args"
    show "distinct (map (\<lambda>r. (molregno r, target_chembl_id r)) (reference_table env args raw))"
      using reference_rows_pairs[OF inv] reference_fps_functional[OF inv gen]
      by (rule reference_table_unique_from_rows)
  qed
qed

theorem reference_table_no_null_no_duplicate_pair_witness:
  "selected_dataset_invariant demo_dataset
   \<and> fingerprints_by_structure demo_predict_env demo_args
   \<and> length demo_dataset = 4
   \<and> length (reference_table demo_predict_env demo_args demo_dataset) = 3
   \<and> list_all complete_cta_fp (reference_table demo_predict_env demo_args demo_dataset)
   \<and> distinct (map (\<lambda>r. (molregno r, target_chembl_id r))
         (reference_table demo_predict_env demo_args demo_dataset))"
proof -
  have inv: "selected_dataset_invariant demo_dataset"
    by (simp add: selected_dataset_invariant_def demo_dataset_def cta_row.truncate_def)
  have "\<forall>rows label. set (gen_fps demo_predict_env demo_args rows label)
          \<subseteq> (\<lambda>(m, s). (m, demo_fp s)) ` set rows"
    by (simp add: demo_predict_env_def)
  then have gen: "fingerprints_by_structure demo_predict_env demo_args"
    unfolding fingerprints_by_structure_def by blast
  have len: "length demo_dataset = 4"
    "length (reference_table demo_predict_env demo_args demo_dataset) = 3"
    by (simp_all add: reference_table_def reference_rows_def reference_fps_def merge_on_molregno_def
        complete_cta_def complete_cta_fp_def demo_predict_env_def demo_fp_def demo_dataset_def
        cta_row.truncate_def)
  from reference_table_no_null_no_duplicate_pair[of demo_predict_env demo_args demo_dataset] inv gen
  have "(\<forall>r \<in> set (reference_table demo_predict_env demo_args demo_dataset). complete_cta_fp r)
     \<and> distinct (map (\<lambda>r. (molregno r, target_chembl_id r))
         (reference_table demo_predict_env demo_args demo_dataset))"
    by blast
  with inv gen len show ?thesis
    by (simp add: list_all_iff)
qed

section \<open>Similarity and ranking as the spec describes them\<close>

lemma on_bits_iff: "i \<in> on_bits A \<longleftrightarrow> i < length A \<and> A ! i"
  by (auto simp: on_bits_def)

lemma finite_on_bits: "finite (on_bits A)"
  by (simp add: on_bits_def)

lemma tanimoto_range: "0 \<le> tanimoto A B \<and> tanimoto A B \<le> 1"
proof -
  have "card (on_bits A \<inter> on_bits B) \<le> card (on_bits A \<union> on_bits B)"
    by (rule card_mono) (auto simp: finite_on_bits)
  then show ?thesis
    by (simp add: tanimoto_def divide_le_eq_1)
qed

text \<open>
  Claim C4. Every fingerprint has similarity 1 with itself, and the similarity of two
  fingerprints does not depend on their order, where the similarity is the number of bits
  set in both divided by the number of bits set in either.
\<close>

theorem tanimoto_self_and_symmetric:
  "tanimoto A A = 1 \<and> tanimoto A B = tanimoto B A"
proof
  show "tanimoto A A = 1"
    by (simp add: tanimoto_def)
  show "tanimoto A B = tanimoto B A"
    by (simp add: tanimoto_def Int_commute Un_commute)
qed

text \<open>
  Claim C3. For one query with three neighbours of targets T1, T2, T1 and similarities 0.9,
  0.8, 0.7, ranking with k = 2 gives T1 first with mean 0.9 and T2 second with mean 0.8:
  the top two are the first two neighbours, so the third adds nothing to the mean of T1,
  which over all three would be 0.8.
\<close>

theorem rank_targets_scenario:
  "rank_targets 2
     [\<lparr>query_id = PStr ''Q'', reference_compound_id = PInt 1, target_id = PStr ''T1'',
        protein_id = PStr ''P1'', similarity_score = 9 / 10\<rparr>,
      \<lparr>query_id = PStr ''Q'', reference_compound_id = PInt 2, target_id = PStr ''T2'',
        protein_id = PStr ''P2'', similarity_score = 8 / 10\<rparr>,
      \<lparr>query_id = PStr ''Q'', reference_compound_id = PInt 3, target_id = PStr ''T1'',
        protein_id = PStr ''P1'', similarity_score = 7 / 10\<rparr>]
   = [\<lparr>predicted_target = PStr ''T1'', predicted_protein = PStr ''P1'',
        mean_similarity_of_top_k = 9 / 10, rank_of_target = 1\<rparr>,
      \<lparr>predicted_target = PStr ''T2'', predicted_protein = PStr ''P2'',
        mean_similarity_of_top_k = 8 / 10, rank_of_target = 2\<rparr>]
   \<and> top_k_neighbors 2
     [\<lparr>query_id = PStr ''Q'', reference_compound_id = PInt 1, target_id = PStr ''T1'',
        protein_id = PStr ''P1'', similarity_score = 9 / 10\<rparr>,
      \<lparr>query_id = PStr ''Q'', reference_compound_id = PInt 2, target_id = PStr ''T2'',
        protein_id = PStr ''P2'', similarity_score = 8 / 10\<rparr>,
      \<lparr>query_id = PStr ''Q'', reference_compound_id = PInt 3, target_id = PStr ''T1'',
        protein_id = PStr ''P1'', similarity_score = 7 / 10\<rparr>]
   = [\<lparr>query_id = PStr ''Q'', reference_compound_id = PInt 1, target_id = PStr ''T1'',
        protein_id = PStr ''P1'', similarity_score = 9 / 10\<rparr>,
      \<lparr>query_id = PStr ''Q'', reference_compound_id = PInt 2, target_id = PStr ''T2'',
        protein_id = PStr ''P2'', similarity_score = 8 / 10\<rparr>]
   \<and> mean_similarity (PStr ''T1'')
     [\<lparr>query_id = PStr ''Q'', reference_compound_id = PInt 1, target_id = PStr ''T1'',
        protein_id = PStr ''P1'', similarity_score = 9 / 10\<rparr>,
      \<lparr>query_id = PStr ''Q'', reference_compound_id = PInt 2, target_id = PStr ''T2'',
        protein_id = PStr ''P2'', similarity_score = 8 / 10\<rparr>,
      \<lparr>query_id = PStr ''Q'', reference_compound_id = PInt 3, target_id = PStr ''T1'',
        protein_id = PStr ''P1'', similarity_score = 7 / 10\<rparr>]
   = 8 / 10"
  by (simp add: rank_targets_def top_k_neighbors_def mean_similarity_def protein_of_def Let_def
      enumerate_eq_zip upt_rec)

end
